theory Spec2Isabelle
  imports Complex_Main "HOL-Library.List_Lexorder"
begin

section \<open>The P2FA forced-alignment pipeline of pyfoal\<close>

text \<open>
  A shallow embedding of \<^verbatim>\<open>pyfoal/baselines/p2fa.py\<close>. Python values are modelled as
  follows.
  \<^item> A \<^verbatim>\<open>str\<close> is the list of its Unicode code points (\<open>pystr\<close>); \<open>py_str\<close> turns an
    ASCII literal into one. Python compares strings by code point, lexicographically,
    which is the lexicographic order on \<open>nat list\<close>.
  \<^item> A \<^verbatim>\<open>float\<close> is a \<open>real\<close>: arithmetic is exact, rounding is not modelled.
  \<^item> An exception is a value \<open>Inl e\<close> of a sum type.
  \<^item> External collaborators (the G2P engine, the numeral expander, the resampler, the
    HTK executables, the alignment file parser) are parameters of the functions that
    call them.
  \<^item> Errors of the operating system (a full disk, a missing executable) are not modelled:
    writing a file and spawning a process always succeed.
\<close>

subsection \<open>Strings and errors\<close>

type_synonym pystr = "nat list"

definition py_str :: "string \<Rightarrow> pystr" where
  "py_str s = map of_char s"

text \<open>
  The exceptions of the model: \<^verbatim>\<open>IndexError\<close> (an index out of range), \<^verbatim>\<open>ZeroDivisionError\<close>,
  \<^verbatim>\<open>ValueError\<close> (a pool with no worker) and \<open>ParseError\<close>, which stands for whatever
  \<^verbatim>\<open>pypar.Alignment\<close> raises on a missing or malformed alignment file.
\<close>

datatype error = IndexError | ZeroDivisionError | ParseError | ValueError

subsection \<open>Text normalisation\<close>

text \<open>
  \<^verbatim>\<open>string.punctuation\<close> is \<^verbatim>\<open>!"#$%&'()*+,-./:;<=>?@[\]^_`{|}~\<close>: the code points 33 to 47,
  58 to 64, 91 to 96 and 123 to 126.
\<close>

definition string_punctuation :: pystr where
  "string_punctuation = [33..<48] @ [58..<65] @ [91..<97] @ [123..<127]"

text \<open>
  \<^verbatim>\<open>Aligner.__init__\<close>: the punctuation to strip is \<^verbatim>\<open>string.punctuation\<close> and the right
  double quotation mark (8221), the left one (8220) and the em dash (8212), without the
  hyphen (45). \<^verbatim>\<open>str.maketrans(x, y, z)\<close> maps the character \<open>x\<close> to \<open>y\<close> and every character
  of \<open>z\<close> to \<^verbatim>\<open>None\<close>; the entries of \<open>z\<close> are stored last and win. A table is a function
  from code points: \<open>None\<close> when the code point has no entry, \<open>Some None\<close> when it is
  deleted, \<open>Some (Some r)\<close> when it is replaced by \<open>r\<close>.
\<close>

definition punctuation :: pystr where
  "punctuation = filter (\<lambda>s. s \<noteq> 45) (string_punctuation @ [8221, 8220, 8212])"

definition maketrans :: "nat \<Rightarrow> nat \<Rightarrow> pystr \<Rightarrow> nat \<Rightarrow> nat option option" where
  "maketrans x y z c = (if c \<in> set z then Some None else if c = x then Some (Some y) else None)"

definition punctuation_table :: "nat \<Rightarrow> nat option option" where
  "punctuation_table = maketrans 45 32 punctuation"

text \<open>\<^verbatim>\<open>str.translate\<close>, and \<^verbatim>\<open>str.replace\<close> of one character by another.\<close>

definition translate :: "(nat \<Rightarrow> nat option option) \<Rightarrow> pystr \<Rightarrow> pystr" where
  "translate table text =
     concat (map (\<lambda>c. case table c of None \<Rightarrow> [c] | Some None \<Rightarrow> [] | Some (Some r) \<Rightarrow> [r]) text)"

definition replace_char :: "nat \<Rightarrow> nat \<Rightarrow> pystr \<Rightarrow> pystr" where
  "replace_char old new text = map (\<lambda>c. if c = old then new else c) text"

text \<open>
  The test \<^verbatim>\<open>'  ' in text\<close> and the call \<^verbatim>\<open>text.replace('  ', ' ')\<close>, which replaces the
  occurrences of two spaces from left to right without overlap, so three spaces become
  two. The \<^verbatim>\<open>while\<close> loop of \<^verbatim>\<open>lint\<close> repeats the replacement until the test fails; every
  round shortens the text.
\<close>

fun has_double_space :: "pystr \<Rightarrow> bool" where
  "has_double_space (a # b # cs) = ((a = 32 \<and> b = 32) \<or> has_double_space (b # cs))"
| "has_double_space cs = False"

fun replace_double_space :: "pystr \<Rightarrow> pystr" where
  "replace_double_space (a # b # cs) =
     (if a = 32 \<and> b = 32 then 32 # replace_double_space cs
      else a # replace_double_space (b # cs))"
| "replace_double_space cs = cs"

function collapse_spaces :: "pystr \<Rightarrow> pystr" where
  "collapse_spaces text =
     (if has_double_space text then collapse_spaces (replace_double_space text) else text)"
  by pat_completeness auto
termination
proof (relation "measure length")
  show "wf (measure length)" by simp
next
  fix s :: pystr
  assume h: "has_double_space s"
  have le: "length (replace_double_space t) \<le> length t" for t
    by (induction t rule: replace_double_space.induct) auto
  have "has_double_space t \<Longrightarrow> length (replace_double_space t) < length t" for t
  proof (induction t rule: replace_double_space.induct)
    case (1 a b cs)
    then show ?case using le [of cs] by (auto simp: less_Suc_eq_le)
  qed simp_all
  with h show "(replace_double_space s, s) \<in> measure length" by simp
qed

declare collapse_spaces.simps [simp del]

text \<open>
  \<^verbatim>\<open>g2p_en.expand.normalize_numbers\<close> is an external collaborator. It rewrites text with
  regular expressions that each need a decimal digit (48 to 57) to match, so it returns
  a text without digits as it is. What it makes of a text with digits is the parameter
  \<open>expand\<close>.
\<close>

definition is_digit :: "nat \<Rightarrow> bool" where
  "is_digit c = (48 \<le> c \<and> c \<le> 57)"

definition normalize_numbers :: "(pystr \<Rightarrow> pystr) \<Rightarrow> pystr \<Rightarrow> pystr" where
  "normalize_numbers expand text = (if list_ex is_digit text then expand text else text)"

text \<open>\<^verbatim>\<open>Aligner.lint\<close>.\<close>

definition lint :: "(pystr \<Rightarrow> pystr) \<Rightarrow> pystr \<Rightarrow> pystr" where
  "lint expand text =
     (let text = replace_char 10 32 text;
          text = replace_char 9 32 text;
          text = collapse_spaces text;
          text = normalize_numbers expand text
      in translate punctuation_table text)"

subsection \<open>Pronunciation dictionary and word list\<close>

text \<open>
  \<^verbatim>\<open>str.upper\<close> turns the ASCII letters a to z into A to Z and leaves the other ASCII
  characters alone. The upper case of a code point from 128 on, which can be several
  code points, is the parameter \<open>uc\<close>.
\<close>

definition py_upper :: "(nat \<Rightarrow> pystr) \<Rightarrow> pystr \<Rightarrow> pystr" where
  "py_upper uc text =
     concat (map (\<lambda>c. if 97 \<le> c \<and> c \<le> 122 then [c - 32] else if c < 128 then [c] else uc c) text)"

text \<open>
  \<^verbatim>\<open>str.split()\<close> without argument cuts the text at runs of white space and returns the
  non-empty pieces. \<open>is_space\<close> is \<^verbatim>\<open>str.isspace\<close> on one code point.
\<close>

definition is_space :: "nat \<Rightarrow> bool" where
  "is_space c \<longleftrightarrow>
     (9 \<le> c \<and> c \<le> 13) \<or> (28 \<le> c \<and> c \<le> 32) \<or> c = 133 \<or> c = 160 \<or> c = 5760 \<or>
     (8192 \<le> c \<and> c \<le> 8202) \<or> c = 8232 \<or> c = 8233 \<or> c = 8239 \<or> c = 8287 \<or> c = 12288"

fun split_from :: "pystr \<Rightarrow> pystr \<Rightarrow> pystr list" where
  "split_from [] word = (if word = [] then [] else [word])"
| "split_from (c # cs) word =
     (if is_space c then (if word = [] then split_from cs [] else word # split_from cs [])
      else split_from cs (word @ [c]))"

definition py_split :: "pystr \<Rightarrow> pystr list" where
  "py_split text = split_from text []"

text \<open>
  \<^verbatim>\<open>sep.join(xs)\<close>. The same function on lists of phonemes gives the output of the G2P
  engine for a text whose words have the phoneme lists \<open>xs\<close>: the lists in order, with
  one space marker between two words.
\<close>

fun py_join :: "'a list \<Rightarrow> 'a list list \<Rightarrow> 'a list" where
  "py_join sep [] = []"
| "py_join sep [x] = x"
| "py_join sep (x # y # ys) = x @ sep @ py_join sep (y # ys)"

text \<open>
  \<^verbatim>\<open>Aligner.split_phonemes\<close>: the loop carries the word being built and the words found
  so far. A space marker closes the word only when the word is not empty; otherwise
  the marker is appended to the word like any phoneme.
\<close>

fun split_loop :: "pystr list \<Rightarrow> pystr list \<Rightarrow> pystr list list \<Rightarrow> pystr list list" where
  "split_loop [] word words = (if word \<noteq> [] then words @ [word] else words)"
| "split_loop (phoneme # phonemes) word words =
     (if phoneme = py_str '' '' \<and> word \<noteq> [] then split_loop phonemes [] (words @ [word])
      else split_loop phonemes (word @ [phoneme]) words)"

definition split_phonemes :: "pystr list \<Rightarrow> pystr list list" where
  "split_phonemes phonemes = split_loop phonemes [] []"

subsection \<open>Alignments\<close>

text \<open>
  A phoneme of a \<^verbatim>\<open>pypar.Alignment\<close>: its label and its start and end times in seconds.
  \<^verbatim>\<open>p.duration()\<close> is the difference of the two.
\<close>

record segment =
  seg_label :: pystr
  seg_start :: real
  seg_end :: real

definition seg_duration :: "segment \<Rightarrow> real" where
  "seg_duration p = seg_end p - seg_start p"

text \<open>
  Modelled from the spec: \<^verbatim>\<open>pypar.Alignment.update(durations=...)\<close> belongs to the pypar
  library and is not part of the sources. The specification (4.4, step 5) says that it
  recomputes the start and end time of every segment by cumulative sum of the given
  durations; the alignment covers the audio from time 0 (section 3).
\<close>

fun update_from :: "real \<Rightarrow> segment list \<Rightarrow> real list \<Rightarrow> segment list" where
  "update_from t (p # ps) (d # ds) =
     p\<lparr>seg_start := t, seg_end := t + d\<rparr> # update_from (t + d) ps ds"
| "update_from t ps [] = ps"
| "update_from t [] ds = []"

definition update :: "segment list \<Rightarrow> real list \<Rightarrow> segment list" where
  "update alignment durations = update_from 0 alignment durations"

text \<open>
  \<^verbatim>\<open>Aligner.correct_alignment\<close>. The first argument is what
  \<^verbatim>\<open>pypar.Alignment(alignment_file)\<close> evaluates to: the phonemes of the decoder's output
  file, or the exception raised when the file is missing or malformed.
  \<^verbatim>\<open>durations[0] += .0125\<close> raises \<^verbatim>\<open>IndexError\<close> on an empty list; past that line the list
  is not empty and \<^verbatim>\<open>durations[-1] = ...\<close> assigns its last element.
\<close>

definition correct_alignment :: "error + segment list \<Rightarrow> real \<Rightarrow> error + segment list" where
  "correct_alignment alignment_file duration =
     (case alignment_file of
        Inl e \<Rightarrow> Inl e
      | Inr alignment \<Rightarrow>
          (case map seg_duration alignment of
             [] \<Rightarrow> Inl IndexError
           | d0 # rest \<Rightarrow>
               let durations = (d0 + 0.0125) # rest;
                   durations = map (\<lambda>d. d * 11000 / 11025) durations;
                   durations = durations[length durations - 1 :=
                                 duration - sum_list (butlast durations)]
               in Inr (update alignment durations)))"

subsection \<open>Files and processes\<close>

text \<open>
  The effects of the pipeline are recorded as a trace of events, in program order: a
  file written with its content, a subprocess spawned by \<^verbatim>\<open>subprocess.Popen\<close> with its
  argument vector, a \<^verbatim>\<open>wait()\<close> that returned with the exit status of a subprocess, and
  the removal of a temporary directory. A spawned process runs on its own; the program
  learns that it has terminated, and how, only from a \<open>Wait\<close> event. A text file is the
  list of the strings written to it, a sound file the samples and the sample rate of
  its header, a saved alignment its segments.
\<close>

datatype content = Wav "real list" nat | Text "pystr list" | Saved "segment list"

datatype event =
    Write pystr content
  | Spawn "pystr list"
  | Wait "pystr list" int
  | Cleanup pystr

type_synonym world = "event list"

text \<open>
  The collaborators of a pipeline run: the directory of the aligner's assets
  (\<^verbatim>\<open>pyfoal.ASSETS_DIR / pyfoal.ALIGNER\<close>), the name that \<^verbatim>\<open>tempfile.TemporaryDirectory\<close>
  picks, the exit status with which an external command ends, what
  \<^verbatim>\<open>pypar.Alignment\<close> reads from a path once the decoder has run, \<^verbatim>\<open>g2p_en.G2p()\<close>, the
  numeral expansion, the upper case of non-ASCII code points, \<^verbatim>\<open>resampy.resample\<close>,
  \<^verbatim>\<open>pyfoal.load.text\<close>, \<^verbatim>\<open>pyfoal.load.audio\<close> and \<^verbatim>\<open>os.cpu_count\<close>.
\<close>

record env =
  ASSETS :: pystr
  TemporaryDirectory :: "world \<Rightarrow> pystr"
  returncode :: "world \<Rightarrow> pystr list \<Rightarrow> int"
  Alignment :: "world \<Rightarrow> pystr \<Rightarrow> error + segment list"
  G2p :: "pystr \<Rightarrow> pystr list"
  expand_numbers :: "pystr \<Rightarrow> pystr"
  upper_non_ascii :: "nat \<Rightarrow> pystr"
  resample :: "real list \<Rightarrow> nat \<Rightarrow> nat \<Rightarrow> real list"
  load_text :: "pystr \<Rightarrow> pystr"
  load_audio :: "pystr \<Rightarrow> real list \<times> nat"
  cpu_count :: nat

definition SAMPLE_RATE :: nat where
  "SAMPLE_RATE = 11025"

definition path_join :: "pystr \<Rightarrow> pystr \<Rightarrow> pystr" where
  "path_join directory name = directory @ py_str ''/'' @ name"

text \<open>The paths set by \<^verbatim>\<open>Aligner.__init__\<close>.\<close>

definition hcopy :: "pystr \<Rightarrow> pystr" where
  "hcopy assets_dir = path_join assets_dir (py_str ''config'')"

definition macros :: "pystr \<Rightarrow> pystr" where
  "macros assets_dir = path_join assets_dir (py_str ''macros'')"

definition model :: "pystr \<Rightarrow> pystr" where
  "model assets_dir = path_join assets_dir (py_str ''hmmdefs'')"

definition monophones :: "pystr \<Rightarrow> pystr" where
  "monophones assets_dir = path_join assets_dir (py_str ''monophones'')"

text \<open>
  \<^verbatim>\<open>Aligner.format\<close>: three files are written and \<^verbatim>\<open>HCopy\<close> is spawned. The \<^verbatim>\<open>Popen\<close> object is
  dropped: there is no \<^verbatim>\<open>wait()\<close>.
\<close>

definition format :: "pystr \<Rightarrow> pystr \<Rightarrow> real list \<Rightarrow> pystr \<Rightarrow> world \<Rightarrow> (error + unit) \<times> world" where
  "format assets_dir directory audio script_file w =
     (let audiofile = path_join directory (py_str ''sound.wav'');
          w = w @ [Write audiofile (Wav audio SAMPLE_RATE)];
          code_file = path_join directory (py_str ''codetr.scp'');
          plp_file = path_join directory (py_str ''tmp.plp'');
          w = w @ [Write code_file (Text [audiofile @ py_str '' '' @ plp_file @ py_str ''\<newline>''])];
          w = w @ [Write script_file (Text [plp_file @ py_str ''\<newline>''])];
          w = w @ [Spawn [py_str ''HCopy'', py_str ''-T'', py_str ''1'', py_str ''-C'',
                          hcopy assets_dir, py_str ''-S'', code_file]]
      in (Inr (), w))"

text \<open>
  \<^verbatim>\<open>Aligner.viterbi\<close>: the log file is opened for writing, \<^verbatim>\<open>HVite\<close> is spawned and waited for.
  The value of \<^verbatim>\<open>wait()\<close>, the exit status, is not used.
\<close>

definition viterbi ::
  "(world \<Rightarrow> pystr list \<Rightarrow> int) \<Rightarrow> pystr \<Rightarrow> pystr \<Rightarrow> pystr \<Rightarrow> pystr \<Rightarrow> pystr \<Rightarrow> pystr \<Rightarrow> world \<Rightarrow>
   (error + unit) \<times> world" where
  "viterbi status assets_dir words dictionary directory script_file output w =
     (let args = [py_str ''HVite'', py_str ''-T'', py_str ''1'', py_str ''-a'', py_str ''-m'',
                  py_str ''-I'', words,
                  py_str ''-H'', macros assets_dir,
                  py_str ''-H'', model assets_dir,
                  py_str ''-S'', script_file,
                  py_str ''-i'', output,
                  py_str ''-p'', py_str ''0.'',
                  py_str ''-s'', py_str ''5.'',
                  dictionary,
                  monophones assets_dir];
          w = w @ [Write (path_join directory (py_str ''aligned.results'')) (Text [])];
          w = w @ [Spawn args];
          code = status w args;
          w = w @ [Wait args code]
      in (Inr (), w))"

text \<open>\<^verbatim>\<open>Aligner.write_pronunciation\<close> and \<^verbatim>\<open>Aligner.write_words\<close>.\<close>

definition write_pronunciation ::
  "(pystr \<Rightarrow> pystr list) \<Rightarrow> (nat \<Rightarrow> pystr) \<Rightarrow> pystr \<Rightarrow> pystr \<Rightarrow> world \<Rightarrow> pystr \<times> world" where
  "write_pronunciation g2p_call uc directory text w =
     (let phonemes = g2p_call text;
          iterator = zip (py_split (py_upper uc text)) (split_phonemes phonemes);
          lines = map (\<lambda>(w, p). w @ py_str ''  '' @ py_join (py_str '' '') p @ py_str ''\<newline>'') iterator;
          lines = lines @ [py_str ''sp  sp\<newline>''];
          filename = path_join directory (py_str ''dictionary'')
      in (filename, w @ [Write filename (Text (sort lines))]))"

definition write_words :: "(nat \<Rightarrow> pystr) \<Rightarrow> pystr \<Rightarrow> pystr \<Rightarrow> world \<Rightarrow> pystr \<times> world" where
  "write_words uc directory text w =
     (let filename = path_join directory (py_str ''tmp.mlf'')
      in (filename,
          w @ [Write filename (Text
                 ([py_str ''#!MLF!#\<newline>'', [34] @ py_str ''*/tmp.lab'' @ [34, 10]] @
                  concat (map (\<lambda>word. [py_str ''sp\<newline>'', word @ py_str ''\<newline>''])
                            (py_split (py_upper uc text))) @
                  [py_str ''sp\<newline>'']))]))"

subsection \<open>The pipeline\<close>

text \<open>
  \<^verbatim>\<open>Aligner.__call__\<close>. The temporary directory is removed when the \<^verbatim>\<open>with\<close> block is left,
  also by an exception. Python evaluates the arguments of \<^verbatim>\<open>viterbi\<close> from left to right:
  \<^verbatim>\<open>write_words\<close> runs before \<^verbatim>\<open>write_pronunciation\<close>.
\<close>

definition call :: "env \<Rightarrow> pystr \<Rightarrow> real list \<Rightarrow> real \<Rightarrow> world \<Rightarrow> (error + segment list) \<times> world" where
  "call e text audio duration w =
     (let directory = TemporaryDirectory e w;
          script_file = path_join directory (py_str ''test.scp'');
          (r, w) = format (ASSETS e) directory audio script_file w
      in case r of
           Inl err \<Rightarrow> (Inl err, w @ [Cleanup directory])
         | Inr _ \<Rightarrow>
             let text = lint (expand_numbers e) text;
                 alignment_file = path_join directory (py_str ''alignment.mlf'');
                 (words, w) = write_words (upper_non_ascii e) directory text w;
                 (dictionary, w) = write_pronunciation (G2p e) (upper_non_ascii e) directory text w;
                 (r, w) = viterbi (returncode e) (ASSETS e) words dictionary directory
                            script_file alignment_file w
             in case r of
                  Inl err \<Rightarrow> (Inl err, w @ [Cleanup directory])
                | Inr _ \<Rightarrow>
                    (correct_alignment (Alignment e w alignment_file) duration,
                     w @ [Cleanup directory]))"

text \<open>
  \<^verbatim>\<open>align\<close>. The division raises \<^verbatim>\<open>ZeroDivisionError\<close> for a sample rate of zero.
  \<^verbatim>\<open>resampy.resample\<close> returns a new array; the call is an expression statement, so its
  value is dropped and \<open>audio\<close> stays bound to the input samples. The aligner cached on
  the function object holds only the constant paths and the punctuation table.
\<close>

definition align :: "env \<Rightarrow> pystr \<Rightarrow> real list \<Rightarrow> nat \<Rightarrow> world \<Rightarrow> (error + segment list) \<times> world" where
  "align e text audio sample_rate w =
     (if sample_rate = 0 then (Inl ZeroDivisionError, w)
      else
        let duration = real (length audio) / real sample_rate;
            discarded = (if sample_rate \<noteq> SAMPLE_RATE
                         then Some (resample e audio sample_rate SAMPLE_RATE) else None)
        in call e text audio duration w)"

definition from_file :: "env \<Rightarrow> pystr \<Rightarrow> pystr \<Rightarrow> world \<Rightarrow> (error + segment list) \<times> world" where
  "from_file e text_file audio_file w =
     (let text = load_text e text_file;
          (audio, sample_rate) = load_audio e audio_file
      in align e text audio sample_rate w)"

definition from_file_to_file :: "env \<Rightarrow> pystr \<Rightarrow> pystr \<Rightarrow> pystr \<Rightarrow> world \<Rightarrow> (error + unit) \<times> world" where
  "from_file_to_file e text_file audio_file output_file w =
     (case from_file e text_file audio_file w of
        (Inl err, w) \<Rightarrow> (Inl err, w)
      | (Inr alignment, w) \<Rightarrow> (Inr (), w @ [Write output_file (Saved alignment)]))"

subsection \<open>The batch driver\<close>

text \<open>
  \<^verbatim>\<open>multiprocessing.Pool.starmap\<close>, as CPython implements it. The items are cut into chunks
  of \<open>n div (4 * processes)\<close> items, one more when the division leaves a remainder
  (\<open>get_tasks\<close>). A worker process runs the function on the items of a chunk in order and
  stops at the first exception, which becomes the result of the chunk (\<open>starmapstar\<close>).
  \<open>starmap\<close> waits for all chunks; it returns the results in order when no chunk
  failed and raises the exception of a failed chunk otherwise (the first one reported;
  here the first in task order). Workers are separate processes that share nothing, so
  the function runs every item from an empty trace of its own; the trace of the batch
  lists the traces of the items in task order, one of the possible interleavings.
\<close>

fun get_tasks :: "nat \<Rightarrow> 'a list \<Rightarrow> 'a list list" where
  "get_tasks k xs =
     (if k = 0 \<or> xs = [] then [] else take k xs # get_tasks k (drop k xs))"

declare get_tasks.simps [simp del]

fun starmapstar :: "('a \<Rightarrow> (error + 'b) \<times> world) \<Rightarrow> 'a list \<Rightarrow> (error + 'b list) \<times> world" where
  "starmapstar f [] = (Inr [], [])"
| "starmapstar f (x # xs) =
     (case f x of
        (Inl err, t) \<Rightarrow> (Inl err, t)
      | (Inr y, t) \<Rightarrow>
          (case starmapstar f xs of
             (Inl err, t') \<Rightarrow> (Inl err, t @ t')
           | (Inr ys, t') \<Rightarrow> (Inr (y # ys), t @ t')))"

definition chunksize :: "nat \<Rightarrow> nat \<Rightarrow> nat" where
  "chunksize n processes =
     (let size = n div (processes * 4);
          extra = n mod (processes * 4)
      in if extra \<noteq> 0 then size + 1 else size)"

definition starmap ::
  "nat \<Rightarrow> ('a \<Rightarrow> (error + 'b) \<times> world) \<Rightarrow> 'a list \<Rightarrow> (error + 'b list) \<times> world" where
  "starmap processes f iterable =
     (let results = map (starmapstar f)
                      (get_tasks (chunksize (length iterable) processes) iterable);
          trace = concat (map snd results)
      in case [err. (Inl err, t) \<leftarrow> results] of
           err # _ \<Rightarrow> (Inl err, trace)
         | [] \<Rightarrow> (Inr (concat [ys. (Inr ys, t) \<leftarrow> results]), trace))"

text \<open>
  \<^verbatim>\<open>from_files_to_files\<close>. \<open>align_fn\<close> is \<^verbatim>\<open>from_file_to_file\<close> applied to the three paths of
  an item, in a worker process. \<^verbatim>\<open>mp.Pool\<close> raises \<^verbatim>\<open>ValueError\<close> for fewer than one worker.
\<close>

definition align_fn :: "env \<Rightarrow> pystr \<times> pystr \<times> pystr \<Rightarrow> (error + unit) \<times> world" where
  "align_fn e item =
     (case item of (text_file, audio_file, output_file) \<Rightarrow>
        from_file_to_file e text_file audio_file output_file [])"

definition from_files_to_files ::
  "env \<Rightarrow> pystr list \<Rightarrow> pystr list \<Rightarrow> pystr list \<Rightarrow> nat option \<Rightarrow> world \<Rightarrow> (error + unit) \<times> world" where
  "from_files_to_files e text_files audio_files output_files num_workers w =
     (let num_workers = (case num_workers of None \<Rightarrow> cpu_count e | Some n \<Rightarrow> n);
          iterator = zip text_files (zip audio_files output_files)
      in if num_workers < 1 then (Inl ValueError, w)
         else case starmap num_workers (align_fn e) iterator of
                (Inl err, t) \<Rightarrow> (Inl err, w @ t)
              | (Inr results, t) \<Rightarrow> (Inr (), w @ t))"

subsection \<open>Observations on traces\<close>

text \<open>
  The sound files written, the process events and the paths of the saved alignments of
  a trace.
\<close>

fun is_wav :: "event \<Rightarrow> bool" where
  "is_wav (Write path (Wav samples rate)) = True"
| "is_wav ev = False"

fun is_process_event :: "event \<Rightarrow> bool" where
  "is_process_event (Spawn args) = True"
| "is_process_event (Wait args code) = True"
| "is_process_event ev = False"

fun saved_path :: "event \<Rightarrow> pystr list" where
  "saved_path (Write path (Saved alignment)) = [path]"
| "saved_path ev = []"

definition saved_paths :: "world \<Rightarrow> pystr list" where
  "saved_paths w = concat (map saved_path w)"

subsection \<open>Test doubles\<close>

text \<open>
  Scripted collaborators for the concrete runs below: a numeral expansion for text
  without numerals, the upper case of text without cased non-ASCII letters, a G2P
  engine that returns no phoneme for the second of three words, one that returns the
  phonemes of two words, and a decoder that has failed with exit status 1.
\<close>

definition no_numerals :: "pystr \<Rightarrow> pystr" where
  "no_numerals text = text"

definition uncased :: "nat \<Rightarrow> pystr" where
  "uncased c = [c]"

definition g2p_gap :: "pystr \<Rightarrow> pystr list" where
  "g2p_gap text = [py_str ''AH0'', py_str '' '', py_str '' '', py_str ''S'', py_str ''IY1'']"

definition g2p_two_words :: "pystr \<Rightarrow> pystr list" where
  "g2p_two_words text = [py_str ''AH0'', py_str '' '', py_str ''B'', py_str ''IY1'']"

definition status_failed :: "world \<Rightarrow> pystr list \<Rightarrow> int" where
  "status_failed w args = 1"

text \<open>
  A studio for batch runs: every text file reads \<^verbatim>\<open>a b\<close>, the audio file \<^verbatim>\<open>bad.wav\<close> has no
  samples and every other one has two, and the decoder leaves no readable alignment
  when the sound file it was given is empty, one silence segment otherwise.
\<close>

fun empty_wav :: "event \<Rightarrow> bool" where
  "empty_wav (Write path (Wav samples rate)) = (samples = [])"
| "empty_wav ev = False"

definition decoded :: "world \<Rightarrow> pystr \<Rightarrow> error + segment list" where
  "decoded w path =
     (if list_ex empty_wav w then Inl ParseError
      else Inr [\<lparr>seg_label = py_str ''sp'', seg_start = 0, seg_end = 1\<rparr>])"

definition studio :: env where
  "studio =
     \<lparr>ASSETS = py_str ''assets'',
      TemporaryDirectory = (\<lambda>w. py_str ''tmp''),
      returncode = (\<lambda>w args. 0),
      Alignment = decoded,
      G2p = g2p_two_words,
      expand_numbers = no_numerals,
      upper_non_ascii = uncased,
      resample = (\<lambda>audio rate target. audio),
      load_text = (\<lambda>path. py_str ''a b''),
      load_audio = (\<lambda>path. if path = py_str ''bad.wav'' then ([], 11025) else ([0, 0], 11025)),
      cpu_count = 1\<rparr>"

section \<open>Properties of the alignment correction\<close>

lemma update_from_length:
  "length ps = length ds \<Longrightarrow> length (update_from t ps ds) = length ds"
  by (induction t ps ds rule: update_from.induct) simp_all

lemma update_from_durations:
  "length ps = length ds \<Longrightarrow> map seg_duration (update_from t ps ds) = ds"
  by (induction t ps ds rule: update_from.induct) (simp_all add: seg_duration_def)

lemma update_from_start:
  "length ps = length ds \<Longrightarrow> ds \<noteq> [] \<Longrightarrow> seg_start (hd (update_from t ps ds)) = t"
  by (induction t ps ds rule: update_from.induct) simp_all

lemma update_from_contiguous:
  "length ps = length ds \<Longrightarrow> Suc i < length ds \<Longrightarrow>
   seg_end (update_from t ps ds ! i) = seg_start (update_from t ps ds ! Suc i)"
proof (induction t ps ds arbitrary: i rule: update_from.induct)
  case (1 t p ps d ds)
  show ?case
  proof (cases i)
    case 0
    from 1(2,3) have "ds \<noteq> []" "length ps = length ds" by auto
    then have "seg_start (hd (update_from (t + d) ps ds)) = t + d"
      by (simp add: update_from_start)
    moreover from \<open>ds \<noteq> []\<close> \<open>length ps = length ds\<close> have "update_from (t + d) ps ds \<noteq> []"
      using update_from_length [of ps ds "t + d"] by auto
    ultimately show ?thesis using 0 by (simp add: hd_conv_nth)
  next
    case (Suc j)
    with 1 show ?thesis by simp
  qed
qed simp_all

lemma set_last_sum:
  fixes xs :: "real list"
  assumes "xs \<noteq> []"
  shows "sum_list (xs[length xs - 1 := D - sum_list (butlast xs)]) = D"
proof -
  from assms obtain ys y where xs: "xs = ys @ [y]" by (metis rev_exhaust)
  then show ?thesis by simp
qed

lemma set_last_butlast:
  "xs \<noteq> [] \<Longrightarrow> butlast (xs[length xs - 1 := v]) = butlast xs"
  by (induction xs rule: rev_induct) simp_all

lemma set_last_last:
  "xs \<noteq> [] \<Longrightarrow> last (xs[length xs - 1 := v]) = v"
  by (induction xs rule: rev_induct) simp_all

text \<open>What \<open>correct_alignment\<close> hands to \<open>update\<close> when the raw alignment is not empty.\<close>

lemma correct_alignment_Inr:
  assumes "alignment \<noteq> []"
  shows "\<exists>ds. correct_alignment (Inr alignment) D = Inr (update alignment ds) \<and>
              length ds = length alignment \<and> sum_list ds = D \<and>
              last ds = D - sum_list (butlast ds)"
proof -
  from assms obtain p ps where al: "alignment = p # ps" by (cases alignment) auto
  define xs where "xs = map (\<lambda>d. d * 11000 / 11025) ((seg_duration p + 0.0125) # map seg_duration ps)"
  define ds where "ds = xs[length xs - 1 := D - sum_list (butlast xs)]"
  have ne: "xs \<noteq> []" and len: "length xs = length alignment"
    by (simp_all add: xs_def al)
  have "correct_alignment (Inr alignment) D = Inr (update alignment ds)"
    by (simp only: correct_alignment_def ds_def xs_def al sum.case list.map list.case Let_def)
  moreover have "length ds = length alignment" by (simp add: ds_def len)
  moreover have "sum_list ds = D" unfolding ds_def by (rule set_last_sum [OF ne])
  moreover have "last ds = D - sum_list (butlast ds)"
    unfolding ds_def by (simp only: set_last_last [OF ne] set_last_butlast [OF ne])
  ultimately show ?thesis by blast
qed

text \<open>
  C1. For a raw alignment with three segments of durations \<open>d0\<close>, \<open>d1\<close>, \<open>d2\<close> and a true
  audio duration \<open>D\<close>, the corrected durations are
  \<open>[(d0 + 0.0125) * k, d1 * k, D - (d0 + 0.0125) * k - d1 * k]\<close> with \<open>k = 11000 / 11025\<close>:
  the first duration gets the onset offset and then the rate correction, the middle
  one only the rate correction, and the last one is the remainder. (Floats are reals
  here: the identity is exact in the arithmetic of the model.)
\<close>

theorem correct_alignment_three_segments:
  "\<exists>a. correct_alignment (Inr [p0, p1, p2]) D = Inr a \<and>
       map seg_duration a =
         [(seg_duration p0 + 0.0125) * (11000 / 11025),
          seg_duration p1 * (11000 / 11025),
          D - (seg_duration p0 + 0.0125) * (11000 / 11025) - seg_duration p1 * (11000 / 11025)]"
  by (simp add: correct_alignment_def Let_def update_def seg_duration_def algebra_simps)

text \<open>
  C2. For a non-empty raw alignment and a true duration \<open>D > 0\<close>, \<open>correct_alignment\<close>
  returns an alignment with one segment per raw segment, whose durations sum to \<open>D\<close>
  within \<open>1e-6\<close> (in exact arithmetic the sum is \<open>D\<close>), and in which every segment ends
  where the next one starts.
\<close>

theorem correct_alignment_coverage:
  assumes "alignment \<noteq> []" and "0 < D"
  shows "\<exists>a. correct_alignment (Inr alignment) D = Inr a \<and>
             length a = length alignment \<and>
             \<bar>sum_list (map seg_duration a) - D\<bar> \<le> 1 / 10 ^ 6 \<and>
             (\<forall>i. Suc i < length a \<longrightarrow> seg_end (a ! i) = seg_start (a ! Suc i))"
proof -
  from correct_alignment_Inr [OF assms(1), of D] obtain ds where
    res: "correct_alignment (Inr alignment) D = Inr (update alignment ds)" and
    len: "length ds = length alignment" and total: "sum_list ds = D"
    by blast
  let ?a = "update alignment ds"
  have la: "length ?a = length alignment"
    using len by (simp add: update_def update_from_length)
  have "map seg_duration ?a = ds"
    using len by (simp add: update_def update_from_durations)
  then have "\<bar>sum_list (map seg_duration ?a) - D\<bar> \<le> 1 / 10 ^ 6"
    using total by simp
  moreover have "\<forall>i. Suc i < length ?a \<longrightarrow> seg_end (?a ! i) = seg_start (?a ! Suc i)"
    using len la by (simp add: update_def update_from_contiguous)
  ultimately show ?thesis using res la by blast
qed

theorem correct_alignment_coverage_witness:
  "[\<lparr>seg_label = py_str ''sp'', seg_start = 0, seg_end = 1\<rparr>,
    \<lparr>seg_label = py_str ''AH0'', seg_start = 1, seg_end = 2\<rparr>] \<noteq> [] \<and> (0::real) < 3 \<and>
   (\<exists>a. correct_alignment
          (Inr [\<lparr>seg_label = py_str ''sp'', seg_start = 0, seg_end = 1\<rparr>,
                \<lparr>seg_label = py_str ''AH0'', seg_start = 1, seg_end = 2\<rparr>]) 3 = Inr a \<and>
        length a = 2 \<and>
        \<bar>sum_list (map seg_duration a) - 3\<bar> \<le> 1 / 10 ^ 6 \<and>
        (\<forall>i. Suc i < length a \<longrightarrow> seg_end (a ! i) = seg_start (a ! Suc i)))"
  using correct_alignment_coverage
    [of "[\<lparr>seg_label = py_str ''sp'', seg_start = 0, seg_end = 1\<rparr>,
          \<lparr>seg_label = py_str ''AH0'', seg_start = 1, seg_end = 2\<rparr>]" 3]
  by (simp add: numeral_2_eq_2)

text \<open>
  C7, as the code has it. \<open>correct_alignment\<close> fails on an empty raw alignment, with the
  \<^verbatim>\<open>IndexError\<close> of \<^verbatim>\<open>durations[0]\<close>. On a non-empty one it always returns an alignment: the
  last duration is the remainder \<open>D\<close> minus the sum of the durations before it, with no
  check of its sign, so it is negative exactly when \<open>D\<close> is smaller than that sum.
\<close>

theorem correct_alignment_no_sign_check:
  "correct_alignment (Inr []) D = Inl IndexError \<and>
   (alignment \<noteq> [] \<longrightarrow>
      (\<exists>a. correct_alignment (Inr alignment) D = Inr a \<and>
           length a = length alignment \<and>
           seg_duration (last a) = D - sum_list (map seg_duration (butlast a)) \<and>
           (seg_duration (last a) < 0 \<longleftrightarrow> D < sum_list (map seg_duration (butlast a)))))"
proof (intro conjI impI)
  show "correct_alignment (Inr []) D = Inl IndexError"
    by (simp add: correct_alignment_def)
next
  assume ne: "alignment \<noteq> []"
  from correct_alignment_Inr [OF ne, of D] obtain ds where
    res: "correct_alignment (Inr alignment) D = Inr (update alignment ds)" and
    len: "length ds = length alignment" and
    lst: "last ds = D - sum_list (butlast ds)"
    by blast
  let ?a = "update alignment ds"
  have la: "length ?a = length alignment"
    using len by (simp add: update_def update_from_length)
  have durs: "map seg_duration ?a = ds"
    using len by (simp add: update_def update_from_durations)
  have ane: "?a \<noteq> []" using la ne by auto
  have "seg_duration (last ?a) = last (map seg_duration ?a)"
    using ane by (simp add: last_map)
  moreover have "map seg_duration (butlast ?a) = butlast (map seg_duration ?a)"
    by (simp add: map_butlast)
  ultimately have "seg_duration (last ?a) = D - sum_list (map seg_duration (butlast ?a))"
    using durs lst by simp
  then show "\<exists>a. correct_alignment (Inr alignment) D = Inr a \<and>
           length a = length alignment \<and>
           seg_duration (last a) = D - sum_list (map seg_duration (butlast a)) \<and>
           (seg_duration (last a) < 0 \<longleftrightarrow> D < sum_list (map seg_duration (butlast a)))"
    using res la by auto
qed

theorem correct_alignment_no_sign_check_witness:
  "correct_alignment (Inr []) 3 = Inl IndexError \<and>
   [\<lparr>seg_label = py_str ''sp'', seg_start = 0, seg_end = 1\<rparr>] \<noteq> [] \<and>
   (\<exists>a. correct_alignment (Inr [\<lparr>seg_label = py_str ''sp'', seg_start = 0, seg_end = 1\<rparr>]) 3 = Inr a \<and>
        length a = 1 \<and>
        seg_duration (last a) = 3 - sum_list (map seg_duration (butlast a)) \<and>
        (seg_duration (last a) < 0 \<longleftrightarrow> 3 < sum_list (map seg_duration (butlast a))))"
  using correct_alignment_no_sign_check
    [of 3 "[\<lparr>seg_label = py_str ''sp'', seg_start = 0, seg_end = 1\<rparr>]"]
  by simp

text \<open>
  C7, as stated, fails: with raw durations \<open>[1, 1]\<close> and a true duration of half a second,
  \<open>correct_alignment\<close> returns an alignment whose last segment runs from \<open>99/98\<close> back to
  \<open>1/2\<close>, a duration of \<open>-25/49\<close>.
\<close>

theorem correct_alignment_negative_duration:
  "correct_alignment
     (Inr [\<lparr>seg_label = py_str ''sp'', seg_start = 0, seg_end = 1\<rparr>,
           \<lparr>seg_label = py_str ''AH0'', seg_start = 1, seg_end = 2\<rparr>]) (1 / 2) =
   Inr [\<lparr>seg_label = py_str ''sp'', seg_start = 0, seg_end = 99 / 98\<rparr>,
        \<lparr>seg_label = py_str ''AH0'', seg_start = 99 / 98, seg_end = 1 / 2\<rparr>] \<and>
   seg_duration \<lparr>seg_label = py_str ''AH0'', seg_start = 99 / 98, seg_end = 1 / 2\<rparr> = - 25 / 49"
  by (simp add: correct_alignment_def Let_def update_def seg_duration_def)

section \<open>Properties of the text normaliser\<close>

lemma set_punctuation:
  "set punctuation = ({33..47} - {45}) \<union> {58..64} \<union> {91..96} \<union> {123..126} \<union> {8212, 8220, 8221}"
proof -
  have "set string_punctuation = {33..<48} \<union> {58..<65} \<union> {91..<97} \<union> {123..<127}"
    unfolding string_punctuation_def by (simp only: set_append set_upt Un_assoc)
  then show ?thesis
    unfolding punctuation_def by (simp only: set_filter set_append) auto
qed

lemma punctuation_table_eq:
  "punctuation_table c =
     (if (33 \<le> c \<and> c \<le> 47 \<and> c \<noteq> 45) \<or> (58 \<le> c \<and> c \<le> 64) \<or> (91 \<le> c \<and> c \<le> 96) \<or>
         (123 \<le> c \<and> c \<le> 126) \<or> c = 8212 \<or> c = 8220 \<or> c = 8221
      then Some None else if c = 45 then Some (Some 32) else None)"
  unfolding punctuation_table_def maketrans_def set_punctuation by auto


lemma replace_double_space_subset: "set (replace_double_space t) \<subseteq> set t"
  by (induction t rule: replace_double_space.induct) auto

lemma collapse_spaces_subset: "set (collapse_spaces t) \<subseteq> set t"
proof (induction t rule: collapse_spaces.induct)
  case (1 t)
  show ?case
  proof (cases "has_double_space t")
    case True
    with 1 have "set (collapse_spaces (replace_double_space t)) \<subseteq> set (replace_double_space t)"
      by simp
    with True show ?thesis
      using replace_double_space_subset [of t] by (subst collapse_spaces.simps) auto
  next
    case False
    then show ?thesis by (subst collapse_spaces.simps) simp
  qed
qed

lemma collapse_spaces_no_double: "\<not> has_double_space (collapse_spaces t)"
proof (induction t rule: collapse_spaces.induct)
  case (1 t)
  then show ?case by (subst collapse_spaces.simps) simp
qed

lemma collapse_spaces_fixed: "collapse_spaces t = t \<longleftrightarrow> \<not> has_double_space t"
proof
  assume "collapse_spaces t = t"
  then show "\<not> has_double_space t" using collapse_spaces_no_double [of t] by simp
next
  assume "\<not> has_double_space t"
  then show "collapse_spaces t = t" by (subst collapse_spaces.simps) simp
qed

lemma translate_unchanged: "\<forall>c \<in> set t. table c = None \<Longrightarrow> translate table t = t"
  by (induction t) (simp_all add: translate_def)

lemma translate_punctuation_table:
  assumes "c \<in> set (translate punctuation_table t)"
  shows "punctuation_table c = None \<and> (c \<in> set t \<or> c = 32)"
proof -
  from assms obtain x where x: "x \<in> set t"
    and c: "c \<in> set (case punctuation_table x of None \<Rightarrow> [x] | Some None \<Rightarrow> [] | Some (Some r) \<Rightarrow> [r])"
    by (auto simp: translate_def)
  show ?thesis
  proof (cases "punctuation_table x")
    case None
    with x c show ?thesis by simp
  next
    case (Some r)
    with c obtain r' where r: "punctuation_table x = Some (Some r')" and cr: "c = r'"
      by (cases r) auto
    from r have "r' = 32" by (auto simp: punctuation_table_eq split: if_splits)
    with cr show ?thesis by (simp add: punctuation_table_eq)
  qed
qed

lemma replace_char_absent: "old \<notin> set t \<Longrightarrow> replace_char old new t = t"
  by (induction t) (auto simp: replace_char_def)

lemma replace_char_set: "set (replace_char old new t) \<subseteq> (set t - {old}) \<union> {new}"
  by (auto simp: replace_char_def)

lemma normalize_numbers_no_digit:
  "\<forall>c \<in> set t. \<not> is_digit c \<Longrightarrow> normalize_numbers expand t = t"
  by (simp add: normalize_numbers_def list_ex_iff)

lemma lint_no_digit:
  assumes "\<forall>c \<in> set t. \<not> is_digit c"
  shows "lint expand t = translate punctuation_table
           (collapse_spaces (replace_char 9 32 (replace_char 10 32 t)))"
    and "\<forall>c \<in> set (lint expand t). \<not> is_digit c \<and> punctuation_table c = None \<and> c \<noteq> 9 \<and> c \<noteq> 10"
proof -
  let ?s = "collapse_spaces (replace_char 9 32 (replace_char 10 32 t))"
  have sub: "set ?s \<subseteq> (set t - {9, 10}) \<union> {32}"
    using collapse_spaces_subset [of "replace_char 9 32 (replace_char 10 32 t)"]
      replace_char_set [of 9 32 "replace_char 10 32 t"] replace_char_set [of 10 32 t]
    by auto
  then have nd: "\<forall>c \<in> set ?s. \<not> is_digit c"
    using assms by (auto simp: is_digit_def)
  then show eq: "lint expand t = translate punctuation_table ?s"
    by (simp add: lint_def Let_def normalize_numbers_no_digit)
  show "\<forall>c \<in> set (lint expand t). \<not> is_digit c \<and> punctuation_table c = None \<and> c \<noteq> 9 \<and> c \<noteq> 10"
  proof
    fix c assume "c \<in> set (lint expand t)"
    then have "c \<in> set (translate punctuation_table ?s)" by (simp only: eq)
    from translate_punctuation_table [OF this]
    have tb: "punctuation_table c = None" and mem: "c \<in> set ?s \<or> c = 32" by simp_all
    from mem sub have "c \<noteq> 9 \<and> c \<noteq> 10" by auto
    moreover from mem nd have "\<not> is_digit c" by (auto simp: is_digit_def)
    ultimately show "\<not> is_digit c \<and> punctuation_table c = None \<and> c \<noteq> 9 \<and> c \<noteq> 10"
      using tb by simp
  qed
qed

text \<open>
  C3, as the code has it. On a text without decimal digits (where the numeral expansion
  changes nothing), normalising a normalised text only collapses the runs of spaces
  that the stripping of punctuation and the replacement of hyphens left behind:
  \<open>lint (lint t)\<close> is \<open>lint t\<close> with its runs of spaces collapsed. So \<open>lint (lint t) = lint t\<close>
  holds exactly when \<open>lint t\<close> has no two adjacent spaces.
\<close>

theorem lint_twice:
  assumes "\<not> list_ex is_digit t"
  shows "lint expand (lint expand t) = collapse_spaces (lint expand t) \<and>
         (lint expand (lint expand t) = lint expand t \<longleftrightarrow> \<not> has_double_space (lint expand t))"
proof -
  let ?L = "lint expand t"
  from assms have nd0: "\<forall>c \<in> set t. \<not> is_digit c" by (simp add: list_ex_iff)
  from lint_no_digit(2) [OF nd0, of expand]
  have clean: "\<forall>c \<in> set ?L. \<not> is_digit c \<and> punctuation_table c = None \<and> c \<noteq> 9 \<and> c \<noteq> 10" .
  then have nd: "\<forall>c \<in> set ?L. \<not> is_digit c" by blast
  from clean have "10 \<notin> set ?L" "9 \<notin> set ?L" by blast+
  then have r: "replace_char 9 32 (replace_char 10 32 ?L) = ?L"
    by (simp add: replace_char_absent)
  have "\<forall>c \<in> set (collapse_spaces ?L). punctuation_table c = None"
    using clean collapse_spaces_subset [of ?L] by blast
  then have "translate punctuation_table (collapse_spaces ?L) = collapse_spaces ?L"
    by (rule translate_unchanged)
  with lint_no_digit(1) [OF nd, of expand] r
  have "lint expand ?L = collapse_spaces ?L" by simp
  then show ?thesis by (simp add: collapse_spaces_fixed)
qed

theorem lint_twice_witness:
  "\<not> list_ex is_digit (py_str ''a . b'') \<and>
   lint no_numerals (lint no_numerals (py_str ''a . b'')) =
     collapse_spaces (lint no_numerals (py_str ''a . b'')) \<and>
   (lint no_numerals (lint no_numerals (py_str ''a . b'')) = lint no_numerals (py_str ''a . b'')) =
     (\<not> has_double_space (lint no_numerals (py_str ''a . b'')))"
proof -
  have h: "\<not> list_ex is_digit (py_str ''a . b'')"
    by (simp add: py_str_def is_digit_def)
  from lint_twice [OF h, of no_numerals] h show ?thesis by blast
qed

text \<open>
  C3, as stated, fails: punctuation is stripped after the white space has been
  collapsed. \<^verbatim>\<open>lint("a . b")\<close> is \<^verbatim>\<open>"a  b"\<close>, with two spaces, and \<^verbatim>\<open>lint("a  b")\<close> is
  \<^verbatim>\<open>"a b"\<close>.
\<close>

theorem lint_not_idempotent:
  "lint no_numerals (py_str ''a . b'') = py_str ''a  b'' \<and>
   lint no_numerals (lint no_numerals (py_str ''a . b'')) = py_str ''a b'' \<and>
   lint no_numerals (lint no_numerals (py_str ''a . b'')) \<noteq> lint no_numerals (py_str ''a . b'')"
  by (simp add: lint_def py_str_def replace_char_def normalize_numbers_def is_digit_def
        translate_def punctuation_table_eq Let_def collapse_spaces.simps no_numerals_def)

section \<open>Properties of the pronunciation dictionary\<close>

lemma py_str_space: "py_str '' '' = [32]"
  by (simp add: py_str_def)

lemma count_list_insort: "count_list (insort x xs) y = count_list (x # xs) y"
  by (induction xs) auto

lemma count_list_sort: "count_list (sort xs) y = count_list xs y"
  by (induction xs) (simp_all add: count_list_insort)

lemma py_upper_no_s:
  assumes "\<forall>c. 115 \<notin> set (uc (128 + c))"
  shows "115 \<notin> set (py_upper uc t)"
proof -
  have "115 \<notin> set (uc c)" if "\<not> c < 128" for c
  proof -
    from that have "c = 128 + (c - 128)" by simp
    with assms show ?thesis by metis
  qed
  then show ?thesis by (induction t) (auto simp: py_upper_def)
qed

lemma split_from_words:
  "x \<in> set (split_from cs acc) \<Longrightarrow> x \<noteq> [] \<and> set x \<subseteq> set acc \<union> set cs"
proof (induction cs acc rule: split_from.induct)
  case (1 word)
  then show ?case by (auto split: if_splits)
next
  case (2 c cs word)
  then show ?case by (fastforce split: if_splits)
qed

lemma py_split_words: "x \<in> set (py_split t) \<Longrightarrow> x \<noteq> [] \<and> set x \<subseteq> set t"
  using split_from_words [of x t "[]"] by (simp add: py_split_def)

lemma split_loop_skip:
  "py_str '' '' \<notin> set q \<Longrightarrow> split_loop (q @ xs) word words = split_loop xs (word @ q) words"
  by (induction q arbitrary: word) auto

lemma split_loop_join:
  "list_all (\<lambda>p. p \<noteq> [] \<and> py_str '' '' \<notin> set p) prons \<Longrightarrow>
   split_loop (py_join [py_str '' ''] prons) [] words = words @ prons"
proof (induction "[py_str '' '']" prons arbitrary: words rule: py_join.induct)
  case 1
  then show ?case by simp
next
  case (2 x)
  then show ?case using split_loop_skip [of x "[]" "[]" words] by simp
next
  case (3 x y ys)
  from 3(2) have x: "x \<noteq> []" "py_str '' '' \<notin> set x"
    and rest: "list_all (\<lambda>p. p \<noteq> [] \<and> py_str '' '' \<notin> set p) (y # ys)" by simp_all
  have "split_loop (py_join [py_str '' ''] (x # y # ys)) [] words =
        split_loop (py_str '' '' # py_join [py_str '' ''] (y # ys)) x words"
    using split_loop_skip [OF x(2), of "py_str '' '' # py_join [py_str '' ''] (y # ys)" "[]" words]
    by simp
  also have "\<dots> = split_loop (py_join [py_str '' ''] (y # ys)) [] (words @ [x])"
    using x(1) by simp
  also have "\<dots> = (words @ [x]) @ (y # ys)" using 3(1) [OF rest] .
  finally show ?case by simp
qed

lemma split_loop_nonempty:
  "[] \<notin> set words \<Longrightarrow> [] \<notin> set (split_loop xs word words)"
  by (induction xs word words rule: split_loop.induct) auto


lemma word_line_not_silence:
  assumes "\<forall>c. 115 \<notin> set (uc (128 + c))" and "x \<in> set (py_split (py_upper uc t))"
  shows "x @ py_str ''  '' @ py_join (py_str '' '') p @ py_str ''\<newline>'' \<noteq> py_str ''sp  sp\<newline>''"
proof -
  from py_split_words [OF assms(2)] have ne: "x \<noteq> []" and sub: "set x \<subseteq> set (py_upper uc t)"
    by simp_all
  from ne obtain c cs where x: "x = c # cs" by (cases x) auto
  with sub have "c \<in> set (py_upper uc t)" by simp
  with py_upper_no_s [OF assms(1), of t] have "c \<noteq> 115" by auto
  then show ?thesis by (simp add: x py_str_def)
qed

text \<open>
  C9. The lines of the dictionary file are in non-decreasing lexicographic order, and
  the silence entry \<^verbatim>\<open>sp  sp\<close> is among them exactly once: it is appended before the
  sort, and no word line equals it, because a word is a non-empty piece of the text in
  upper case and so does not start with a lower-case \<open>s\<close> (code point 115). The
  hypothesis says this of the upper case of the non-ASCII code points, which the model
  takes as a parameter.
\<close>

theorem write_pronunciation_sorted:
  assumes "\<forall>c. 115 \<notin> set (uc (128 + c))"
  shows "\<exists>lines. write_pronunciation g2p_call uc directory t w =
           (path_join directory (py_str ''dictionary''),
            w @ [Write (path_join directory (py_str ''dictionary'')) (Text lines)]) \<and>
         sorted lines \<and> count_list lines (py_str ''sp  sp\<newline>'') = 1"
proof -
  define entries where "entries =
    map (\<lambda>(w, p). w @ py_str ''  '' @ py_join (py_str '' '') p @ py_str ''\<newline>'')
      (zip (py_split (py_upper uc t)) (split_phonemes (g2p_call t)))"
  let ?lines = "sort (entries @ [py_str ''sp  sp\<newline>''])"
  have eq: "write_pronunciation g2p_call uc directory t w =
           (path_join directory (py_str ''dictionary''),
            w @ [Write (path_join directory (py_str ''dictionary'')) (Text ?lines)])"
    by (simp add: write_pronunciation_def Let_def entries_def)
  have "py_str ''sp  sp\<newline>'' \<notin> set entries"
  proof
    assume "py_str ''sp  sp\<newline>'' \<in> set entries"
    then obtain x p where "(x, p) \<in> set (zip (py_split (py_upper uc t)) (split_phonemes (g2p_call t)))"
      and line: "x @ py_str ''  '' @ py_join (py_str '' '') p @ py_str ''\<newline>'' = py_str ''sp  sp\<newline>''"
      by (auto simp: entries_def)
    then have "x \<in> set (py_split (py_upper uc t))" by (auto dest: set_zip_leftD)
    from word_line_not_silence [OF assms this, of p] line show False by simp
  qed
  then have "count_list entries (py_str ''sp  sp\<newline>'') = 0"
    by (simp add: count_list_0_iff)
  then have "count_list ?lines (py_str ''sp  sp\<newline>'') = 1"
    by (simp add: count_list_sort)
  moreover have "sorted ?lines" by simp
  ultimately show ?thesis using eq by blast
qed

theorem write_pronunciation_sorted_witness:
  "(\<forall>c. 115 \<notin> set (uncased (128 + c))) \<and>
   (\<exists>lines. write_pronunciation g2p_gap uncased (py_str ''tmp'') (py_str ''a b c'') [] =
           (path_join (py_str ''tmp'') (py_str ''dictionary''),
            [] @ [Write (path_join (py_str ''tmp'') (py_str ''dictionary'')) (Text lines)]) \<and>
         sorted lines \<and> count_list lines (py_str ''sp  sp\<newline>'') = 1)"
proof -
  have h: "\<forall>c. 115 \<notin> set (uncased (128 + c))"
    by (simp add: uncased_def)
  from write_pronunciation_sorted [OF h, of g2p_gap "py_str ''tmp''" "py_str ''a b c''" "[]"] h
  show ?thesis by blast
qed

text \<open>
  C8, as the code has it. When the G2P engine returns at least one phoneme for every
  word, \<open>split_phonemes\<close> recovers the phoneme lists of the words from the flat output and
  the dictionary pairs the words with them in order. For any input, no list that
  \<open>split_phonemes\<close> returns is empty: the dictionary never has an entry with an empty
  pronunciation.
\<close>

theorem write_pronunciation_complete:
  assumes "list_all (\<lambda>p. p \<noteq> [] \<and> py_str '' '' \<notin> set p) prons"
    and "g2p_call t = py_join [py_str '' ''] prons"
  shows "split_phonemes (g2p_call t) = prons \<and>
         snd (write_pronunciation g2p_call uc directory t w) =
           w @ [Write (path_join directory (py_str ''dictionary''))
                  (Text (sort (map (\<lambda>(w, p). w @ py_str ''  '' @ py_join (py_str '' '') p @ py_str ''\<newline>'')
                                 (zip (py_split (py_upper uc t)) prons) @
                               [py_str ''sp  sp\<newline>''])))] \<and>
         [] \<notin> set (split_phonemes phonemes)"
proof -
  have sp: "split_phonemes (g2p_call t) = prons"
    using split_loop_join [OF assms(1), of "[]"] by (simp add: split_phonemes_def assms(2))
  moreover have "[] \<notin> set (split_phonemes phonemes)"
    by (simp add: split_phonemes_def split_loop_nonempty)
  ultimately show ?thesis by (simp add: write_pronunciation_def Let_def)
qed

theorem write_pronunciation_complete_witness:
  "list_all (\<lambda>p. p \<noteq> [] \<and> py_str '' '' \<notin> set p) [[py_str ''AH0''], [py_str ''B'', py_str ''IY1'']] \<and>
   g2p_two_words (py_str ''a b'') = py_join [py_str '' ''] [[py_str ''AH0''], [py_str ''B'', py_str ''IY1'']] \<and>
   split_phonemes (g2p_two_words (py_str ''a b'')) = [[py_str ''AH0''], [py_str ''B'', py_str ''IY1'']] \<and>
   snd (write_pronunciation g2p_two_words uncased (py_str ''tmp'') (py_str ''a b'') []) =
     [Write (py_str ''tmp/dictionary'')
        (Text [py_str ''A  AH0\<newline>'', py_str ''B  B IY1\<newline>'', py_str ''sp  sp\<newline>''])] \<and>
   [] \<notin> set (split_phonemes (g2p_gap (py_str ''a b c'')))"
proof -
  have h1: "list_all (\<lambda>p. p \<noteq> [] \<and> py_str '' '' \<notin> set p) [[py_str ''AH0''], [py_str ''B'', py_str ''IY1'']]"
    by (simp add: py_str_def)
  have h2: "g2p_two_words (py_str ''a b'') = py_join [py_str '' ''] [[py_str ''AH0''], [py_str ''B'', py_str ''IY1'']]"
    by (simp add: g2p_two_words_def)
  have ev: "sort (map (\<lambda>(w, p). w @ py_str ''  '' @ py_join (py_str '' '') p @ py_str ''\<newline>'')
                 (zip (py_split (py_upper uncased (py_str ''a b''))) [[py_str ''AH0''], [py_str ''B'', py_str ''IY1'']]) @
               [py_str ''sp  sp\<newline>'']) =
            [py_str ''A  AH0\<newline>'', py_str ''B  B IY1\<newline>'', py_str ''sp  sp\<newline>'']"
    by (simp add: py_str_def py_upper_def py_split_def is_space_def)
  have pj: "path_join (py_str ''tmp'') (py_str ''dictionary'') = py_str ''tmp/dictionary''"
    by (simp add: path_join_def py_str_def)
  from write_pronunciation_complete
    [where prons = "[[py_str ''AH0''], [py_str ''B'', py_str ''IY1'']]" and g2p_call = g2p_two_words
       and t = "py_str ''a b''" and uc = uncased and directory = "py_str ''tmp''" and w = "[]"
       and phonemes = "g2p_gap (py_str ''a b c'')", OF h1 h2]
  show ?thesis using h1 h2 by (simp only: ev pj append_Nil) simp
qed


text \<open>
  C8, as stated, fails: for the text \<^verbatim>\<open>a b c\<close>, with no phoneme returned for the second
  word, \<open>split_phonemes\<close> finds two words, the second one starting with the space marker.
  The dictionary gives \<^verbatim>\<open>B\<close> the phonemes of the third word and has no line for \<^verbatim>\<open>C\<close>.
\<close>

theorem write_pronunciation_gap:
  "split_phonemes (g2p_gap (py_str ''a b c'')) =
     [[py_str ''AH0''], [py_str '' '', py_str ''S'', py_str ''IY1'']] \<and>
   write_pronunciation g2p_gap uncased (py_str ''tmp'') (py_str ''a b c'') [] =
     (py_str ''tmp/dictionary'',
      [Write (py_str ''tmp/dictionary'')
         (Text [py_str ''A  AH0\<newline>'', py_str ''B    S IY1\<newline>'', py_str ''sp  sp\<newline>''])])"
  by (simp add: write_pronunciation_def g2p_gap_def uncased_def py_str_def py_upper_def py_split_def
        is_space_def split_phonemes_def path_join_def Let_def)

section \<open>Properties of the pipeline\<close>

text \<open>The events of \<open>format\<close>, \<open>viterbi\<close>, the two writers and a whole pipeline run.\<close>

lemma format_trace:
  "format a d audio script w =
     (Inr (),
      w @ [Write (path_join d (py_str ''sound.wav'')) (Wav audio SAMPLE_RATE),
           Write (path_join d (py_str ''codetr.scp''))
             (Text [path_join d (py_str ''sound.wav'') @ py_str '' '' @
                    path_join d (py_str ''tmp.plp'') @ py_str ''\<newline>'']),
           Write script (Text [path_join d (py_str ''tmp.plp'') @ py_str ''\<newline>'']),
           Spawn [py_str ''HCopy'', py_str ''-T'', py_str ''1'', py_str ''-C'', hcopy a, py_str ''-S'',
                  path_join d (py_str ''codetr.scp'')]])"
  by (simp add: format_def Let_def)

lemma viterbi_trace:
  "\<exists>args. hd args = py_str ''HVite'' \<and>
     viterbi status a words dictionary d script output w =
       (Inr (),
        w @ [Write (path_join d (py_str ''aligned.results'')) (Text []),
             Spawn args,
             Wait args (status (w @ [Write (path_join d (py_str ''aligned.results'')) (Text []),
                                     Spawn args]) args)])"
  by (simp add: viterbi_def Let_def)

lemma write_words_trace:
  "\<exists>c. write_words uc d t w = (path_join d (py_str ''tmp.mlf''), w @ [Write (path_join d (py_str ''tmp.mlf'')) (Text c)])"
  by (simp add: write_words_def Let_def)

lemma write_pronunciation_trace:
  "\<exists>c. write_pronunciation g uc d t w =
        (path_join d (py_str ''dictionary''), w @ [Write (path_join d (py_str ''dictionary'')) (Text c)])"
  by (simp add: write_pronunciation_def Let_def)

lemma call_trace:
  "\<exists>words_text dictionary_text hvite code w'.
     hd hvite = py_str ''HVite'' \<and>
     w' = w @ [Write (path_join (TemporaryDirectory e w) (py_str ''sound.wav'')) (Wav audio SAMPLE_RATE),
           Write (path_join (TemporaryDirectory e w) (py_str ''codetr.scp''))
             (Text [path_join (TemporaryDirectory e w) (py_str ''sound.wav'') @ py_str '' '' @
                    path_join (TemporaryDirectory e w) (py_str ''tmp.plp'') @ py_str ''\<newline>'']),
           Write (path_join (TemporaryDirectory e w) (py_str ''test.scp''))
             (Text [path_join (TemporaryDirectory e w) (py_str ''tmp.plp'') @ py_str ''\<newline>'']),
           Spawn [py_str ''HCopy'', py_str ''-T'', py_str ''1'', py_str ''-C'', hcopy (ASSETS e), py_str ''-S'',
                  path_join (TemporaryDirectory e w) (py_str ''codetr.scp'')],
           Write (path_join (TemporaryDirectory e w) (py_str ''tmp.mlf'')) (Text words_text),
           Write (path_join (TemporaryDirectory e w) (py_str ''dictionary'')) (Text dictionary_text),
           Write (path_join (TemporaryDirectory e w) (py_str ''aligned.results'')) (Text []),
           Spawn hvite,
           Wait hvite code] \<and>
     call e t audio duration w =
       (correct_alignment
          (Alignment e w' (path_join (TemporaryDirectory e w) (py_str ''alignment.mlf''))) duration,
        w' @ [Cleanup (TemporaryDirectory e w)])"
proof -
  define d where "d = TemporaryDirectory e w"
  define t' where "t' = lint (expand_numbers e) t"
  define w1 where "w1 = w @ [Write (path_join d (py_str ''sound.wav'')) (Wav audio SAMPLE_RATE),
           Write (path_join d (py_str ''codetr.scp''))
             (Text [path_join d (py_str ''sound.wav'') @ py_str '' '' @
                    path_join d (py_str ''tmp.plp'') @ py_str ''\<newline>'']),
           Write (path_join d (py_str ''test.scp''))
             (Text [path_join d (py_str ''tmp.plp'') @ py_str ''\<newline>'']),
           Spawn [py_str ''HCopy'', py_str ''-T'', py_str ''1'', py_str ''-C'', hcopy (ASSETS e), py_str ''-S'',
                  path_join d (py_str ''codetr.scp'')]]"
  have f: "format (ASSETS e) d audio (path_join d (py_str ''test.scp'')) w = (Inr (), w1)"
    by (simp only: format_trace w1_def)
  obtain c1 where ww: "write_words (upper_non_ascii e) d t' w1 =
      (path_join d (py_str ''tmp.mlf''), w1 @ [Write (path_join d (py_str ''tmp.mlf'')) (Text c1)])"
    using write_words_trace by blast
  define w2 where "w2 = w1 @ [Write (path_join d (py_str ''tmp.mlf'')) (Text c1)]"
  obtain c2 where wp: "write_pronunciation (G2p e) (upper_non_ascii e) d t' w2 =
      (path_join d (py_str ''dictionary''), w2 @ [Write (path_join d (py_str ''dictionary'')) (Text c2)])"
    using write_pronunciation_trace by blast
  define w3 where "w3 = w2 @ [Write (path_join d (py_str ''dictionary'')) (Text c2)]"
  obtain args where hv: "hd args = py_str ''HVite''" and
    vt: "viterbi (returncode e) (ASSETS e) (path_join d (py_str ''tmp.mlf''))
           (path_join d (py_str ''dictionary'')) d (path_join d (py_str ''test.scp''))
           (path_join d (py_str ''alignment.mlf'')) w3 =
       (Inr (),
        w3 @ [Write (path_join d (py_str ''aligned.results'')) (Text []),
             Spawn args,
             Wait args (returncode e (w3 @ [Write (path_join d (py_str ''aligned.results'')) (Text []),
                                     Spawn args]) args)])"
    using viterbi_trace by blast
  define code where "code = returncode e (w3 @ [Write (path_join d (py_str ''aligned.results'')) (Text []),
                                     Spawn args]) args"
  define w4 where "w4 = w3 @ [Write (path_join d (py_str ''aligned.results'')) (Text []), Spawn args, Wait args code]"
  have c: "call e t audio duration w =
       (correct_alignment (Alignment e w4 (path_join d (py_str ''alignment.mlf''))) duration,
        w4 @ [Cleanup d])"
    unfolding call_def Let_def
    by (simp only: d_def [symmetric] t'_def [symmetric] f split_conv sum.case
          ww [unfolded w2_def [symmetric]] wp [unfolded w3_def [symmetric]]
          vt [unfolded code_def [symmetric] w4_def [symmetric]])
  have "w4 = w @ [Write (path_join d (py_str ''sound.wav'')) (Wav audio SAMPLE_RATE),
           Write (path_join d (py_str ''codetr.scp''))
             (Text [path_join d (py_str ''sound.wav'') @ py_str '' '' @
                    path_join d (py_str ''tmp.plp'') @ py_str ''\<newline>'']),
           Write (path_join d (py_str ''test.scp''))
             (Text [path_join d (py_str ''tmp.plp'') @ py_str ''\<newline>'']),
           Spawn [py_str ''HCopy'', py_str ''-T'', py_str ''1'', py_str ''-C'', hcopy (ASSETS e), py_str ''-S'',
                  path_join d (py_str ''codetr.scp'')],
           Write (path_join d (py_str ''tmp.mlf'')) (Text c1),
           Write (path_join d (py_str ''dictionary'')) (Text c2),
           Write (path_join d (py_str ''aligned.results'')) (Text []),
           Spawn args,
           Wait args code]"
    by (simp add: w4_def w3_def w2_def w1_def)
  with c hv show ?thesis unfolding d_def by blast
qed


text \<open>
  C10. \<open>format\<close> returns normally whatever becomes of \<^verbatim>\<open>HCopy\<close>: it spawns the process and
  adds no \<open>Wait\<close> event, and no exit status is among its inputs. In a pipeline run the
  process events are, in this order, the spawn of \<^verbatim>\<open>HCopy\<close>, the spawn of \<^verbatim>\<open>HVite\<close> and the
  wait for \<^verbatim>\<open>HVite\<close>: the decoder is started without any wait for the feature extraction,
  which is never waited for.
\<close>

theorem format_does_not_wait:
  "fst (format a d audio script w) = Inr () \<and>
   filter is_process_event (snd (format a d audio script w)) =
     filter is_process_event w @
     [Spawn [py_str ''HCopy'', py_str ''-T'', py_str ''1'', py_str ''-C'', hcopy a, py_str ''-S'',
             path_join d (py_str ''codetr.scp'')]] \<and>
   (\<exists>hvite code.
      hd hvite = py_str ''HVite'' \<and>
      filter is_process_event (snd (call e t audio duration w)) =
        filter is_process_event w @
        [Spawn [py_str ''HCopy'', py_str ''-T'', py_str ''1'', py_str ''-C'', hcopy (ASSETS e), py_str ''-S'',
                path_join (TemporaryDirectory e w) (py_str ''codetr.scp'')],
         Spawn hvite,
         Wait hvite code])"
proof -
  have "fst (format a d audio script w) = Inr ()"
    by (simp add: format_trace)
  moreover have "filter is_process_event (snd (format a d audio script w)) =
     filter is_process_event w @
     [Spawn [py_str ''HCopy'', py_str ''-T'', py_str ''1'', py_str ''-C'', hcopy a, py_str ''-S'',
             path_join d (py_str ''codetr.scp'')]]"
    by (simp add: format_trace)
  moreover from call_trace [where e = e and w = w and audio = audio and t = t and duration = duration]
  obtain words_text dictionary_text hvite code w' where
    hv: "hd hvite = py_str ''HVite''" and
    w': "w' = w @ [Write (path_join (TemporaryDirectory e w) (py_str ''sound.wav'')) (Wav audio SAMPLE_RATE),
           Write (path_join (TemporaryDirectory e w) (py_str ''codetr.scp''))
             (Text [path_join (TemporaryDirectory e w) (py_str ''sound.wav'') @ py_str '' '' @
                    path_join (TemporaryDirectory e w) (py_str ''tmp.plp'') @ py_str ''\<newline>'']),
           Write (path_join (TemporaryDirectory e w) (py_str ''test.scp''))
             (Text [path_join (TemporaryDirectory e w) (py_str ''tmp.plp'') @ py_str ''\<newline>'']),
           Spawn [py_str ''HCopy'', py_str ''-T'', py_str ''1'', py_str ''-C'', hcopy (ASSETS e), py_str ''-S'',
                  path_join (TemporaryDirectory e w) (py_str ''codetr.scp'')],
           Write (path_join (TemporaryDirectory e w) (py_str ''tmp.mlf'')) (Text words_text),
           Write (path_join (TemporaryDirectory e w) (py_str ''dictionary'')) (Text dictionary_text),
           Write (path_join (TemporaryDirectory e w) (py_str ''aligned.results'')) (Text []),
           Spawn hvite,
           Wait hvite code]" and
    c: "call e t audio duration w =
       (correct_alignment
          (Alignment e w' (path_join (TemporaryDirectory e w) (py_str ''alignment.mlf''))) duration,
        w' @ [Cleanup (TemporaryDirectory e w)])"
    by blast
  have "filter is_process_event (snd (call e t audio duration w)) =
        filter is_process_event w @
        [Spawn [py_str ''HCopy'', py_str ''-T'', py_str ''1'', py_str ''-C'', hcopy (ASSETS e), py_str ''-S'',
                path_join (TemporaryDirectory e w) (py_str ''codetr.scp'')],
         Spawn hvite,
         Wait hvite code]"
    by (simp add: c w')
  ultimately show ?thesis using hv by blast
qed

lemma align_wav:
  assumes "sample_rate \<noteq> 0"
  shows "filter is_wav (snd (align e t audio sample_rate w)) =
         filter is_wav w @
         [Write (path_join (TemporaryDirectory e w) (py_str ''sound.wav'')) (Wav audio SAMPLE_RATE)]"
proof -
  from call_trace [where e = e and w = w and audio = audio and t = t and duration = "real (length audio) / real sample_rate"]
  obtain words_text dictionary_text hvite code w' where
    w': "w' = w @ [Write (path_join (TemporaryDirectory e w) (py_str ''sound.wav'')) (Wav audio SAMPLE_RATE),
           Write (path_join (TemporaryDirectory e w) (py_str ''codetr.scp''))
             (Text [path_join (TemporaryDirectory e w) (py_str ''sound.wav'') @ py_str '' '' @
                    path_join (TemporaryDirectory e w) (py_str ''tmp.plp'') @ py_str ''\<newline>'']),
           Write (path_join (TemporaryDirectory e w) (py_str ''test.scp''))
             (Text [path_join (TemporaryDirectory e w) (py_str ''tmp.plp'') @ py_str ''\<newline>'']),
           Spawn [py_str ''HCopy'', py_str ''-T'', py_str ''1'', py_str ''-C'', hcopy (ASSETS e), py_str ''-S'',
                  path_join (TemporaryDirectory e w) (py_str ''codetr.scp'')],
           Write (path_join (TemporaryDirectory e w) (py_str ''tmp.mlf'')) (Text words_text),
           Write (path_join (TemporaryDirectory e w) (py_str ''dictionary'')) (Text dictionary_text),
           Write (path_join (TemporaryDirectory e w) (py_str ''aligned.results'')) (Text []),
           Spawn hvite,
           Wait hvite code]" and
    c: "call e t audio (real (length audio) / real sample_rate) w =
       (correct_alignment
          (Alignment e w' (path_join (TemporaryDirectory e w) (py_str ''alignment.mlf'')))
          (real (length audio) / real sample_rate),
        w' @ [Cleanup (TemporaryDirectory e w)])"
    by blast
  have "snd (align e t audio sample_rate w) = w' @ [Cleanup (TemporaryDirectory e w)]"
    using assms by (simp add: align_def Let_def c)
  then show ?thesis by (simp add: w')
qed

text \<open>
  C4, on the input \<^verbatim>\<open>align(text, [0, 1, 0, -1], 22050)\<close>. The sound file written for the
  decoder holds the four input samples under a header rate of 11025, whatever
  \<^verbatim>\<open>resampy.resample\<close> computes: its value is dropped.
\<close>

theorem align_keeps_input_rate:
  "filter is_wav (snd (align e t [0, 1, 0, - 1] 22050 [])) =
     [Write (path_join (TemporaryDirectory e []) (py_str ''sound.wav'')) (Wav [0, 1, 0, - 1] 11025)]"
  using align_wav [where sample_rate = 22050 and e = e and t = t and audio = "[0, 1, 0, - 1]" and w = "[]"] by (simp add: SAMPLE_RATE_def)

text \<open>
  C5, as the code has it. \<open>viterbi\<close> spawns \<^verbatim>\<open>HVite\<close>, waits until it has terminated and
  returns normally for every exit status: the status that \<^verbatim>\<open>wait()\<close> returns is dropped.
\<close>

theorem viterbi_discards_status:
  "\<exists>args. hd args = py_str ''HVite'' \<and>
     viterbi status a words dictionary d script output w =
       (Inr (),
        w @ [Write (path_join d (py_str ''aligned.results'')) (Text []),
             Spawn args,
             Wait args (status (w @ [Write (path_join d (py_str ''aligned.results'')) (Text []),
                                     Spawn args]) args)])"
  by (simp add: viterbi_def Let_def)

text \<open>
  C5, as stated, fails: with a decoder that ends with exit status 1, \<open>viterbi\<close> returns
  normally.
\<close>

theorem viterbi_failed_decoder:
  "viterbi status_failed (py_str ''assets'') (py_str ''tmp/tmp.mlf'') (py_str ''tmp/dictionary'')
     (py_str ''tmp'') (py_str ''tmp/test.scp'') (py_str ''tmp/alignment.mlf'') [] =
   (Inr (),
    [Write (py_str ''tmp/aligned.results'') (Text []),
     Spawn [py_str ''HVite'', py_str ''-T'', py_str ''1'', py_str ''-a'', py_str ''-m'',
            py_str ''-I'', py_str ''tmp/tmp.mlf'',
            py_str ''-H'', py_str ''assets/macros'',
            py_str ''-H'', py_str ''assets/hmmdefs'',
            py_str ''-S'', py_str ''tmp/test.scp'',
            py_str ''-i'', py_str ''tmp/alignment.mlf'',
            py_str ''-p'', py_str ''0.'',
            py_str ''-s'', py_str ''5.'',
            py_str ''tmp/dictionary'',
            py_str ''assets/monophones''],
     Wait [py_str ''HVite'', py_str ''-T'', py_str ''1'', py_str ''-a'', py_str ''-m'',
            py_str ''-I'', py_str ''tmp/tmp.mlf'',
            py_str ''-H'', py_str ''assets/macros'',
            py_str ''-H'', py_str ''assets/hmmdefs'',
            py_str ''-S'', py_str ''tmp/test.scp'',
            py_str ''-i'', py_str ''tmp/alignment.mlf'',
            py_str ''-p'', py_str ''0.'',
            py_str ''-s'', py_str ''5.'',
            py_str ''tmp/dictionary'',
            py_str ''assets/monophones''] 1])"
  by (simp add: viterbi_def Let_def status_failed_def macros_def model_def monophones_def
        path_join_def py_str_def)

section \<open>Properties of the batch driver\<close>

text \<open>Chunks, and a chunk or a batch in which a single item fails.\<close>

lemma chunksize_pos:
  assumes "0 < n" and "0 < p"
  shows "0 < chunksize n p"
proof (cases "n mod (p * 4) = 0")
  case True
  with assms have "p * 4 \<le> n" by (auto elim!: dvdE simp: mod_eq_0_iff_dvd)
  with assms have "0 < n div (p * 4)" by (simp add: div_greater_zero_iff)
  with True show ?thesis by (simp add: chunksize_def Let_def)
next
  case False
  then show ?thesis by (simp add: chunksize_def Let_def)
qed

lemma get_tasks_nth:
  "0 < k \<Longrightarrow> m * k < length xs \<Longrightarrow>
   m < length (get_tasks k xs) \<and> get_tasks k xs ! m = take k (drop (m * k) xs)"
proof (induction m arbitrary: xs)
  case 0
  then have "xs \<noteq> []" by auto
  with 0 show ?case by (subst (1 2) get_tasks.simps) simp
next
  case (Suc m)
  then have ne: "xs \<noteq> []" by auto
  from Suc.prems have "m * k < length (drop k xs)" by simp
  from Suc.IH [OF Suc.prems(1) this]
  have "m < length (get_tasks k (drop k xs))"
    and "get_tasks k (drop k xs) ! m = take k (drop (m * k) (drop k xs))" by simp_all
  moreover have "get_tasks k xs = take k xs # get_tasks k (drop k xs)"
    using ne Suc.prems(1) by (subst get_tasks.simps) simp
  ultimately show ?case by (simp add: add.commute)
qed

lemma chunk_nth:
  "r < k \<Longrightarrow> a + r < length xs \<Longrightarrow> take k (drop a xs) ! r = xs ! (a + r)"
  by (simp add: nth_drop)

lemma chunk_member:
  assumes "0 < k" and "x \<in> set (take k (drop (m * k) xs))"
  shows "\<exists>i. i < length xs \<and> i div k = m \<and> x = xs ! i"
proof -
  let ?ch = "take k (drop (m * k) xs)"
  from assms(2) obtain r where r: "r < length ?ch" and x: "x = ?ch ! r"
    by (auto simp: in_set_conv_nth)
  from r have rk: "r < k" and rl: "m * k + r < length xs" by auto
  from x rk rl have "x = xs ! (m * k + r)" by (simp only: chunk_nth)
  moreover from rk assms(1) have "(m * k + r) div k = m" by simp
  ultimately show ?thesis using rl by blast
qed

lemma starmapstar_ok:
  "\<forall>x \<in> set ch. \<not> isl (fst (f x)) \<Longrightarrow>
   \<not> isl (fst (starmapstar f ch)) \<and> snd (starmapstar f ch) = concat (map (\<lambda>x. snd (f x)) ch)"
proof (induction ch)
  case Nil
  then show ?case by simp
next
  case (Cons x ch)
  then obtain y t where fx: "f x = (Inr y, t)" by (cases "f x"; cases "fst (f x)") auto
  from Cons obtain ys t' where r: "starmapstar f ch = (Inr ys, t')"
    and t': "t' = concat (map (\<lambda>x. snd (f x)) ch)"
    by (cases "starmapstar f ch"; cases "fst (starmapstar f ch)") auto
  show ?case by (simp add: fx r t')
qed

lemma starmapstar_fail:
  "\<forall>x \<in> set pre. \<not> isl (fst (f x)) \<Longrightarrow> fst (f x) = Inl err \<Longrightarrow>
   fst (starmapstar f (pre @ x # post)) = Inl err"
proof (induction pre)
  case Nil
  then obtain t where "f x = (Inl err, t)" by (cases "f x") auto
  then show ?case by simp
next
  case (Cons y pre)
  then obtain v t where fy: "f y = (Inr v, t)" by (cases "f y"; cases "fst (f y)") auto
  from Cons have "fst (starmapstar f (pre @ x # post)) = Inl err" by simp
  then obtain t' where "starmapstar f (pre @ x # post) = (Inl err, t')"
    by (cases "starmapstar f (pre @ x # post)") auto
  then show ?case by (simp add: fy)
qed

lemma first_error:
  "\<forall>r \<in> set rs. \<not> isl (fst r) \<Longrightarrow> fst r = Inl err \<Longrightarrow>
   [e. (Inl e, t) \<leftarrow> rs @ r # rs'] = err # [e. (Inl e, t) \<leftarrow> rs']"
proof (induction rs)
  case Nil
  then show ?case by (cases r) auto
next
  case (Cons a rs)
  then obtain v t where "a = (Inr v, t)" by (cases a; cases "fst a") auto
  with Cons show ?case by simp
qed

lemma starmap_one_failure:
  fixes f :: "'a \<Rightarrow> (error + 'b) \<times> world"
  assumes p: "0 < p" and j: "j < length xs"
    and fail: "fst (f (xs ! j)) = Inl err"
    and ok: "\<forall>i < length xs. i \<noteq> j \<longrightarrow> \<not> isl (fst (f (xs ! i)))"
  shows "fst (starmap p f xs) = Inl err"
    and "\<forall>i < length xs. i div chunksize (length xs) p \<noteq> j div chunksize (length xs) p \<longrightarrow>
           set (snd (f (xs ! i))) \<subseteq> set (snd (starmap p f xs))"
proof -
  define c where "c = chunksize (length xs) p"
  define chunks where "chunks = get_tasks c xs"
  define results where "results = map (starmapstar f) chunks"
  define m where "m = j div c"
  from j p have c: "0 < c" unfolding c_def by (intro chunksize_pos) auto
  have nth: "a < length chunks \<and> chunks ! a = take c (drop (a * c) xs)" if "a * c < length xs" for a
    unfolding chunks_def using get_tasks_nth [OF c that] .
  have other: "\<forall>x \<in> set (chunks ! a). \<not> isl (fst (f x))" if "a * c < length xs" "a \<noteq> m" for a
  proof
    fix x assume "x \<in> set (chunks ! a)"
    with nth [OF that(1)] have "x \<in> set (take c (drop (a * c) xs))" by simp
    from chunk_member [OF c this] obtain i where i: "i < length xs" "i div c = a" "x = xs ! i"
      by blast
    with that(2) have "i \<noteq> j" by (auto simp: m_def)
    with ok i show "\<not> isl (fst (f x))" by simp
  qed
  have mc: "m * c < length xs"
  proof -
    have "m * c \<le> j" unfolding m_def by simp
    with j show ?thesis by simp
  qed
  from nth [OF mc] have ml: "m < length chunks" and chm: "chunks ! m = take c (drop (m * c) xs)"
    by simp_all
  define r where "r = j mod c"
  have jr: "j = m * c + r" unfolding m_def r_def by simp
  have rlen: "r < length (chunks ! m)"
    using c j jr unfolding chm r_def by (simp add: less_diff_conv add.commute)
  have rc: "r < c" using c by (simp add: r_def)
  have rth: "chunks ! m ! r = xs ! j"
    unfolding chm using chunk_nth [OF rc, of "m * c" xs] j jr by simp
  have pre: "\<forall>x \<in> set (take r (chunks ! m)). \<not> isl (fst (f x))"
  proof
    fix x assume "x \<in> set (take r (chunks ! m))"
    then obtain q where q: "q < r" "q < length (chunks ! m)" and x: "x = chunks ! m ! q"
      by (auto simp: in_set_conv_nth)
    from q jr j have ql: "m * c + q < length xs" and qj: "m * c + q \<noteq> j" by simp_all
    from q rc have "q < c" by simp
    from chunk_nth [OF this ql] x have "x = xs ! (m * c + q)" unfolding chm by simp
    with ql qj show "\<not> isl (fst (f x))" using ok by simp
  qed
  have "chunks ! m = take r (chunks ! m) @ (xs ! j) # drop (Suc r) (chunks ! m)"
    using id_take_nth_drop [OF rlen] rth by simp
  then have failed: "fst (starmapstar f (chunks ! m)) = Inl err"
    using starmapstar_fail [OF pre fail, of "drop (Suc r) (chunks ! m)"] by simp
  have before: "\<forall>x \<in> set (take m results). \<not> isl (fst x)"
  proof
    fix x assume "x \<in> set (take m results)"
    then obtain a where a: "a < m" and x: "x = starmapstar f (chunks ! a)"
      using ml by (auto simp: in_set_conv_nth results_def)
    from a have "a * c \<le> m * c" by (intro mult_le_mono1) simp
    then have ac: "a * c < length xs" using mc by (rule le_less_trans)
    from a have "a \<noteq> m" by simp
    from starmapstar_ok [OF other [OF ac this]] x show "\<not> isl (fst x)" by simp
  qed
  have split: "results = take m results @ starmapstar f (chunks ! m) # drop (Suc m) results"
    using id_take_nth_drop [of m results] ml by (simp add: results_def)
  have "[e. (Inl e, t) \<leftarrow> results] = err # [e. (Inl e, t) \<leftarrow> drop (Suc m) results]"
    by (subst split) (rule first_error [OF before failed])
  then show "fst (starmap p f xs) = Inl err"
    by (simp add: starmap_def Let_def c_def [symmetric] chunks_def [symmetric] results_def [symmetric])
  have tr: "snd (starmap p f xs) = concat (map snd results)"
    by (simp add: starmap_def Let_def c_def [symmetric] chunks_def [symmetric] results_def [symmetric]
          split: list.splits)
  show "\<forall>i < length xs. i div chunksize (length xs) p \<noteq> j div chunksize (length xs) p \<longrightarrow>
           set (snd (f (xs ! i))) \<subseteq> set (snd (starmap p f xs))"
  proof (intro allI impI)
    fix i assume i: "i < length xs" and ne: "i div chunksize (length xs) p \<noteq> j div chunksize (length xs) p"
    define a where "a = i div c"
    from ne have am: "a \<noteq> m" by (simp add: a_def m_def c_def)
    have "a * c \<le> i" by (simp add: a_def)
    with i have ac: "a * c < length xs" by simp
    from nth [OF ac] have al: "a < length chunks" and cha: "chunks ! a = take c (drop (a * c) xs)"
      by simp_all
    have "i = a * c + i mod c" by (simp add: a_def)
    moreover have "i mod c < c" using c by simp
    ultimately have "xs ! i = chunks ! a ! (i mod c)" "i mod c < length (chunks ! a)"
      using i chunk_nth [of "i mod c" c "a * c" xs] unfolding cha
      by (simp_all add: less_diff_conv add.commute)
    then have mem: "xs ! i \<in> set (chunks ! a)" by (metis nth_mem)
    from starmapstar_ok [OF other [OF ac am]]
    have "snd (starmapstar f (chunks ! a)) = concat (map (\<lambda>x. snd (f x)) (chunks ! a))" by simp
    with mem have "set (snd (f (xs ! i))) \<subseteq> set (snd (starmapstar f (chunks ! a)))" by auto
    moreover have "starmapstar f (chunks ! a) \<in> set results"
      using al by (simp add: results_def)
    ultimately show "set (snd (f (xs ! i))) \<subseteq> set (snd (starmap p f xs))"
      unfolding tr by auto
  qed
qed


text \<open>The items of a batch, and the runs of the studio.\<close>

lemma from_file_to_file_saved:
  assumes "\<not> isl (fst (from_file_to_file e tf af out w))"
  shows "\<exists>a. fst (from_file e tf af w) = Inr a \<and>
             Write out (Saved a) \<in> set (snd (from_file_to_file e tf af out w))"
proof (cases "from_file e tf af w")
  case (Pair r w')
  with assms show ?thesis by (cases r) (simp_all add: from_file_to_file_def)
qed

lemma from_files_to_files_failure:
  assumes len: "length text_files = N" "length audio_files = N" "length output_files = N"
    and n: "0 < n" and j: "j < N"
    and fail: "fst (from_file_to_file e (text_files ! j) (audio_files ! j) (output_files ! j) []) = Inl err"
    and ok: "\<forall>i<N. i \<noteq> j \<longrightarrow>
               \<not> isl (fst (from_file_to_file e (text_files ! i) (audio_files ! i) (output_files ! i) []))"
  shows "fst (from_files_to_files e text_files audio_files output_files (Some n) w) = Inl err \<and>
         (\<forall>i<N. i div chunksize N n \<noteq> j div chunksize N n \<longrightarrow>
            (\<exists>a. fst (from_file e (text_files ! i) (audio_files ! i) []) = Inr a \<and>
                 Write (output_files ! i) (Saved a) \<in>
                   set (snd (from_files_to_files e text_files audio_files output_files (Some n) w))))"
proof -
  define xs where "xs = zip text_files (zip audio_files output_files)"
  have lx: "length xs = N" by (simp add: xs_def len)
  have item: "align_fn e (xs ! i) =
      from_file_to_file e (text_files ! i) (audio_files ! i) (output_files ! i) []" if "i < N" for i
    using that len by (simp add: xs_def align_fn_def)
  have j': "j < length xs" using j lx by simp
  have fail': "fst (align_fn e (xs ! j)) = Inl err" using fail item [OF j] by simp
  have ok': "\<forall>i < length xs. i \<noteq> j \<longrightarrow> \<not> isl (fst (align_fn e (xs ! i)))"
    using ok item lx by simp
  note sm = starmap_one_failure [OF n j' fail' ok']
  obtain t where st: "starmap n (align_fn e) xs = (Inl err, t)"
    using sm(1) by (cases "starmap n (align_fn e) xs") auto
  have res: "from_files_to_files e text_files audio_files output_files (Some n) w = (Inl err, w @ t)"
    using n by (simp add: from_files_to_files_def Let_def xs_def [symmetric] st)
  have "\<exists>a. fst (from_file e (text_files ! i) (audio_files ! i) []) = Inr a \<and>
            Write (output_files ! i) (Saved a) \<in> set (w @ t)"
    if i: "i < N" and ne: "i div chunksize N n \<noteq> j div chunksize N n" for i
  proof -
    from ne have "i \<noteq> j" by auto
    with ok i have "\<not> isl (fst (from_file_to_file e (text_files ! i) (audio_files ! i) (output_files ! i) []))"
      by simp
    from from_file_to_file_saved [OF this] obtain a where
      a: "fst (from_file e (text_files ! i) (audio_files ! i) []) = Inr a" and
      wr: "Write (output_files ! i) (Saved a) \<in>
             set (snd (from_file_to_file e (text_files ! i) (audio_files ! i) (output_files ! i) []))"
      by blast
    from sm(2) i ne lx have "set (snd (align_fn e (xs ! i))) \<subseteq> set (snd (starmap n (align_fn e) xs))"
      by simp
    with wr item [OF i] st have "Write (output_files ! i) (Saved a) \<in> set t" by auto
    with a show ?thesis by auto
  qed
  with res show ?thesis by simp
qed

lemma from_file_to_file_fst:
  "fst (from_file_to_file e tf af out w) = map_sum id (\<lambda>a. ()) (fst (from_file e tf af w))"
proof (cases "from_file e tf af w")
  case (Pair r w')
  then show ?thesis by (cases r) (simp_all add: from_file_to_file_def)
qed

lemma studio_run:
  "fst (from_file_to_file studio tf af out []) =
     (if af = py_str ''bad.wav'' then Inl ParseError else Inr ())"
proof -
  obtain audio where la: "load_audio studio af = (audio, 11025)"
    and au: "audio = (if af = py_str ''bad.wav'' then [] else [0, 0])"
    by (simp add: studio_def)
  define d where "d = real (length audio) / real (11025::nat)"
  from call_trace [where e = studio and w = "[]" and audio = audio and t = "load_text studio tf"
      and duration = d]
  obtain words_text dictionary_text hvite code w' where
    w': "w' = [] @ [Write (path_join (TemporaryDirectory studio []) (py_str ''sound.wav'')) (Wav audio SAMPLE_RATE),
           Write (path_join (TemporaryDirectory studio []) (py_str ''codetr.scp''))
             (Text [path_join (TemporaryDirectory studio []) (py_str ''sound.wav'') @ py_str '' '' @
                    path_join (TemporaryDirectory studio []) (py_str ''tmp.plp'') @ py_str ''\<newline>'']),
           Write (path_join (TemporaryDirectory studio []) (py_str ''test.scp''))
             (Text [path_join (TemporaryDirectory studio []) (py_str ''tmp.plp'') @ py_str ''\<newline>'']),
           Spawn [py_str ''HCopy'', py_str ''-T'', py_str ''1'', py_str ''-C'', hcopy (ASSETS studio), py_str ''-S'',
                  path_join (TemporaryDirectory studio []) (py_str ''codetr.scp'')],
           Write (path_join (TemporaryDirectory studio []) (py_str ''tmp.mlf'')) (Text words_text),
           Write (path_join (TemporaryDirectory studio []) (py_str ''dictionary'')) (Text dictionary_text),
           Write (path_join (TemporaryDirectory studio []) (py_str ''aligned.results'')) (Text []),
           Spawn hvite,
           Wait hvite code]" and
    c: "call studio (load_text studio tf) audio d [] =
       (correct_alignment
          (Alignment studio w' (path_join (TemporaryDirectory studio []) (py_str ''alignment.mlf''))) d,
        w' @ [Cleanup (TemporaryDirectory studio [])])"
    by blast
  have al: "Alignment studio w' p =
      (if audio = [] then Inl ParseError
       else Inr [\<lparr>seg_label = py_str ''sp'', seg_start = 0, seg_end = 1\<rparr>])" for p
    by (simp add: studio_def decoded_def w')
  have "from_file studio tf af [] = call studio (load_text studio tf) audio d []"
    by (simp add: from_file_def la align_def Let_def d_def)
  then have "fst (from_file studio tf af []) =
      correct_alignment (if audio = [] then Inl ParseError
         else Inr [\<lparr>seg_label = py_str ''sp'', seg_start = 0, seg_end = 1\<rparr>]) d"
    by (simp only: c al fst_conv)
  then have r: "fst (from_file studio tf af []) =
      correct_alignment (if audio = [] then Inl ParseError
         else Inr [\<lparr>seg_label = py_str ''sp'', seg_start = 0, seg_end = 1\<rparr>]) d" .
  show ?thesis
  proof (cases "af = py_str ''bad.wav''")
    case True
    with au have "audio = []" by simp
    with r have "fst (from_file studio tf af []) = Inl ParseError"
      by (simp add: correct_alignment_def)
    with True show ?thesis by (simp add: from_file_to_file_fst)
  next
    case False
    with au have "audio \<noteq> []" by simp
    with r have "fst (from_file studio tf af []) =
      correct_alignment (Inr [\<lparr>seg_label = py_str ''sp'', seg_start = 0, seg_end = 1\<rparr>]) d"
      by simp
    moreover from correct_alignment_Inr [of "[\<lparr>seg_label = py_str ''sp'', seg_start = 0, seg_end = 1\<rparr>]" d]
    obtain ds where "correct_alignment (Inr [\<lparr>seg_label = py_str ''sp'', seg_start = 0, seg_end = 1\<rparr>]) d =
        Inr (update [\<lparr>seg_label = py_str ''sp'', seg_start = 0, seg_end = 1\<rparr>] ds)"
      by auto
    ultimately show ?thesis using False by (simp add: from_file_to_file_fst)
  qed
qed


lemma saved_paths_append: "saved_paths (u @ v) = saved_paths u @ saved_paths v"
  by (simp add: saved_paths_def)

lemma call_saved: "saved_paths (snd (call e t audio d w)) = saved_paths w"
proof -
  from call_trace [where e = e and w = w and audio = audio and t = t and duration = d]
  obtain words_text dictionary_text hvite code w' where
    w': "w' = w @ [Write (path_join (TemporaryDirectory e w) (py_str ''sound.wav'')) (Wav audio SAMPLE_RATE),
           Write (path_join (TemporaryDirectory e w) (py_str ''codetr.scp''))
             (Text [path_join (TemporaryDirectory e w) (py_str ''sound.wav'') @ py_str '' '' @
                    path_join (TemporaryDirectory e w) (py_str ''tmp.plp'') @ py_str ''\<newline>'']),
           Write (path_join (TemporaryDirectory e w) (py_str ''test.scp''))
             (Text [path_join (TemporaryDirectory e w) (py_str ''tmp.plp'') @ py_str ''\<newline>'']),
           Spawn [py_str ''HCopy'', py_str ''-T'', py_str ''1'', py_str ''-C'', hcopy (ASSETS e), py_str ''-S'',
                  path_join (TemporaryDirectory e w) (py_str ''codetr.scp'')],
           Write (path_join (TemporaryDirectory e w) (py_str ''tmp.mlf'')) (Text words_text),
           Write (path_join (TemporaryDirectory e w) (py_str ''dictionary'')) (Text dictionary_text),
           Write (path_join (TemporaryDirectory e w) (py_str ''aligned.results'')) (Text []),
           Spawn hvite,
           Wait hvite code]" and
    c: "call e t audio d w =
       (correct_alignment
          (Alignment e w' (path_join (TemporaryDirectory e w) (py_str ''alignment.mlf''))) d,
        w' @ [Cleanup (TemporaryDirectory e w)])"
    by blast
  show ?thesis by (simp add: c w' saved_paths_def)
qed

lemma from_file_saved: "saved_paths (snd (from_file e tf af w)) = saved_paths w"
  by (cases "load_audio e af") (simp add: from_file_def align_def Let_def call_saved)

lemma item_saved:
  "saved_paths (snd (from_file_to_file e tf af out [])) =
     (if isl (fst (from_file_to_file e tf af out [])) then [] else [out])"
proof (cases "from_file e tf af []")
  case (Pair r w')
  with from_file_saved [of e tf af "[]"] have "saved_paths w' = []"
    by (simp add: saved_paths_def)
  with Pair show ?thesis
    by (cases r) (simp_all add: from_file_to_file_def saved_paths_append, simp add: saved_paths_def)
qed

text \<open>
  C6, as the code has it. When exactly one item \<open>j\<close> of a batch of \<open>N\<close> items fails,
  \<open>from_files_to_files\<close> raises the exception of that item to its caller: there is no
  report per item. The other chunks are still processed: every item outside the chunk
  of \<open>j\<close> has its output saved, with the alignment that the item gives when run on its
  own. With at most four items per worker the chunks have one item each, and these are
  all the other items.
\<close>

theorem from_files_to_files_one_failure:
  assumes "length text_files = N" and "length audio_files = N" and "length output_files = N"
    and "0 < n" and "j < N"
    and "fst (from_file_to_file e (text_files ! j) (audio_files ! j) (output_files ! j) []) = Inl err"
    and "\<forall>i<N. i \<noteq> j \<longrightarrow>
               \<not> isl (fst (from_file_to_file e (text_files ! i) (audio_files ! i) (output_files ! i) []))"
  shows "fst (from_files_to_files e text_files audio_files output_files (Some n) w) = Inl err \<and>
         (\<forall>i<N. i div chunksize N n \<noteq> j div chunksize N n \<longrightarrow>
            (\<exists>a. fst (from_file e (text_files ! i) (audio_files ! i) []) = Inr a \<and>
                 Write (output_files ! i) (Saved a) \<in>
                   set (snd (from_files_to_files e text_files audio_files output_files (Some n) w))))"
  using assms by (rule from_files_to_files_failure)

theorem from_files_to_files_one_failure_witness:
  "fst (from_files_to_files studio
          [py_str ''a.txt'', py_str ''b.txt'', py_str ''c.txt'']
          [py_str ''a.wav'', py_str ''bad.wav'', py_str ''c.wav'']
          [py_str ''a.json'', py_str ''b.json'', py_str ''c.json''] (Some 2) []) = Inl ParseError \<and>
   (\<exists>a. fst (from_file studio (py_str ''a.txt'') (py_str ''a.wav'') []) = Inr a \<and>
        Write (py_str ''a.json'') (Saved a) \<in>
          set (snd (from_files_to_files studio
                 [py_str ''a.txt'', py_str ''b.txt'', py_str ''c.txt'']
                 [py_str ''a.wav'', py_str ''bad.wav'', py_str ''c.wav'']
                 [py_str ''a.json'', py_str ''b.json'', py_str ''c.json''] (Some 2) []))) \<and>
   (\<exists>a. fst (from_file studio (py_str ''c.txt'') (py_str ''c.wav'') []) = Inr a \<and>
        Write (py_str ''c.json'') (Saved a) \<in>
          set (snd (from_files_to_files studio
                 [py_str ''a.txt'', py_str ''b.txt'', py_str ''c.txt'']
                 [py_str ''a.wav'', py_str ''bad.wav'', py_str ''c.wav'']
                 [py_str ''a.json'', py_str ''b.json'', py_str ''c.json''] (Some 2) [])))"
proof -
  let ?T = "[py_str ''a.txt'', py_str ''b.txt'', py_str ''c.txt'']"
  let ?A = "[py_str ''a.wav'', py_str ''bad.wav'', py_str ''c.wav'']"
  let ?O = "[py_str ''a.json'', py_str ''b.json'', py_str ''c.json'']"
  have bad: "fst (from_file_to_file studio (?T ! 1) (?A ! 1) (?O ! 1) []) = Inl ParseError"
    by (simp add: studio_run)
  have good: "\<forall>i<3. i \<noteq> 1 \<longrightarrow> \<not> isl (fst (from_file_to_file studio (?T ! i) (?A ! i) (?O ! i) []))"
  proof (intro allI impI)
    fix i :: nat assume "i < 3" "i \<noteq> 1"
    then have "i = 0 \<or> i = 2" by auto
    then show "\<not> isl (fst (from_file_to_file studio (?T ! i) (?A ! i) (?O ! i) []))"
      by (auto simp: studio_run py_str_def)
  qed
  have cs: "chunksize 3 2 = 1" by (simp add: chunksize_def Let_def)
  from from_files_to_files_one_failure
    [where text_files = ?T and audio_files = ?A and output_files = ?O and N = 3 and n = 2
       and j = 1 and e = studio and err = ParseError and w = "[]", OF _ _ _ _ _ bad good]
  have res: "fst (from_files_to_files studio ?T ?A ?O (Some 2) []) = Inl ParseError"
    and others: "\<forall>i<3. i div chunksize 3 2 \<noteq> 1 div chunksize 3 2 \<longrightarrow>
            (\<exists>a. fst (from_file studio (?T ! i) (?A ! i) []) = Inr a \<and>
                 Write (?O ! i) (Saved a) \<in> set (snd (from_files_to_files studio ?T ?A ?O (Some 2) [])))"
    by simp_all
  from others [rule_format, of 0] others [rule_format, of 2] res show ?thesis
    by (simp add: cs)
qed

text \<open>
  C6, as stated, fails. In a batch of five items on one worker the chunks have two
  items. The first item fails: the batch raises its exception, and the second item,
  which is in the same chunk and would succeed, is never run. Only the outputs of the
  third, fourth and fifth item are saved.
\<close>

theorem from_files_to_files_unwinds:
  "fst (from_files_to_files studio
          [py_str ''a.txt'', py_str ''b.txt'', py_str ''c.txt'', py_str ''d.txt'', py_str ''e.txt'']
          [py_str ''bad.wav'', py_str ''b.wav'', py_str ''c.wav'', py_str ''d.wav'', py_str ''e.wav'']
          [py_str ''a.json'', py_str ''b.json'', py_str ''c.json'', py_str ''d.json'', py_str ''e.json'']
          (Some 1) []) = Inl ParseError \<and>
   saved_paths (snd (from_files_to_files studio
          [py_str ''a.txt'', py_str ''b.txt'', py_str ''c.txt'', py_str ''d.txt'', py_str ''e.txt'']
          [py_str ''bad.wav'', py_str ''b.wav'', py_str ''c.wav'', py_str ''d.wav'', py_str ''e.wav'']
          [py_str ''a.json'', py_str ''b.json'', py_str ''c.json'', py_str ''d.json'', py_str ''e.json'']
          (Some 1) [])) = [py_str ''c.json'', py_str ''d.json'', py_str ''e.json'']"
proof -
  define f where "f = align_fn studio"
  have bad: "f (tf, py_str ''bad.wav'', out) =
      (Inl ParseError, snd (from_file_to_file studio tf (py_str ''bad.wav'') out []))" for tf out
    by (simp add: f_def align_fn_def prod_eq_iff studio_run)
  have good: "f (tf, af, out) = (Inr (), snd (from_file_to_file studio tf af out []))"
    if "af \<noteq> py_str ''bad.wav''" for tf af out
    using that by (simp add: f_def align_fn_def prod_eq_iff studio_run)
  have sv_bad: "saved_paths (snd (from_file_to_file studio tf (py_str ''bad.wav'') out [])) = []" for tf out
    by (simp add: item_saved studio_run)
  have sv_good: "saved_paths (snd (from_file_to_file studio tf af out [])) = [out]"
    if "af \<noteq> py_str ''bad.wav''" for tf af out
    using that by (simp add: item_saved studio_run)
  have ne: "py_str ''b.wav'' \<noteq> py_str ''bad.wav''" "py_str ''c.wav'' \<noteq> py_str ''bad.wav''"
    "py_str ''d.wav'' \<noteq> py_str ''bad.wav''" "py_str ''e.wav'' \<noteq> py_str ''bad.wav''"
    by (simp_all add: py_str_def)
  have cs: "chunksize 5 1 = 2" by (simp add: chunksize_def Let_def)
  define xs where "xs = zip
          [py_str ''a.txt'', py_str ''b.txt'', py_str ''c.txt'', py_str ''d.txt'', py_str ''e.txt'']
          (zip [py_str ''bad.wav'', py_str ''b.wav'', py_str ''c.wav'', py_str ''d.wav'', py_str ''e.wav'']
               [py_str ''a.json'', py_str ''b.json'', py_str ''c.json'', py_str ''d.json'', py_str ''e.json''])"
  have xs: "xs = [(py_str ''a.txt'', py_str ''bad.wav'', py_str ''a.json''),
                  (py_str ''b.txt'', py_str ''b.wav'', py_str ''b.json''),
                  (py_str ''c.txt'', py_str ''c.wav'', py_str ''c.json''),
                  (py_str ''d.txt'', py_str ''d.wav'', py_str ''d.json''),
                  (py_str ''e.txt'', py_str ''e.wav'', py_str ''e.json'')]"
    by (simp add: xs_def)
  have len: "length xs = 5" by (simp add: xs)
  have gt: "get_tasks 2 xs =
      [[(py_str ''a.txt'', py_str ''bad.wav'', py_str ''a.json''),
        (py_str ''b.txt'', py_str ''b.wav'', py_str ''b.json'')],
       [(py_str ''c.txt'', py_str ''c.wav'', py_str ''c.json''),
        (py_str ''d.txt'', py_str ''d.wav'', py_str ''d.json'')],
       [(py_str ''e.txt'', py_str ''e.wav'', py_str ''e.json'')]]"
    unfolding xs by (simp add: get_tasks.simps)
  have sm: "starmap (Suc 0) f xs =
      (Inl ParseError,
       snd (from_file_to_file studio (py_str ''a.txt'') (py_str ''bad.wav'') (py_str ''a.json'') []) @
       snd (from_file_to_file studio (py_str ''c.txt'') (py_str ''c.wav'') (py_str ''c.json'') []) @
       snd (from_file_to_file studio (py_str ''d.txt'') (py_str ''d.wav'') (py_str ''d.json'') []) @
       snd (from_file_to_file studio (py_str ''e.txt'') (py_str ''e.wav'') (py_str ''e.json'') []))"
    unfolding starmap_def Let_def len cs [unfolded One_nat_def] gt
    by (simp add: bad good [OF ne(2)] good [OF ne(3)] good [OF ne(4)])
  show ?thesis
    unfolding from_files_to_files_def Let_def f_def [symmetric] xs_def [symmetric]
    by (simp add: sm saved_paths_append sv_bad sv_good [OF ne(2)]
          sv_good [OF ne(3)] sv_good [OF ne(4)])
qed

end
